theory Spec2Isabelle
  imports Complex_Main
begin

section \<open>Python values and exceptions\<close>

text \<open>
  The simulator is a Python program (\<^verbatim>\<open>batterySim.py\<close>). Python floats are modelled
  as real numbers, Python ints as \<open>int\<close>. An exception is a value of type \<open>error\<close>;
  a computation that may raise returns \<open>error + 'a\<close>. Log output is not part of
  the model.
\<close>

datatype error = ZeroDivisionError | AttributeError | ValueError | IndexError | TypeError

text \<open>The payload of a write request to the enum PV, as the putter's \<^verbatim>\<open>isinstance\<close> tests see it.\<close>

datatype pyval = PStr string | PInt int | PFloat real | PBool bool | PNone

text \<open>Float division \<^verbatim>\<open>a / b\<close>: raises on a zero divisor.\<close>

definition py_div :: "real \<Rightarrow> real \<Rightarrow> error + real" where
  "py_div a b = (if b = 0 then Inl ZeroDivisionError else Inr (a / b))"

text \<open>\<^verbatim>\<open>int(x)\<close> of a float truncates toward zero.\<close>

definition trunc_toward_zero :: "real \<Rightarrow> int" where
  "trunc_toward_zero x = (if 0 \<le> x then \<lfloor>x\<rfloor> else \<lceil>x\<rceil>)"

text \<open>
  \<^verbatim>\<open>int(value)\<close> for a value with \<^verbatim>\<open>isinstance(value, (int, float))\<close> (bool is a
  subclass of int); \<open>None\<close> when the \<^verbatim>\<open>isinstance\<close> test fails.
\<close>

fun numeric_int :: "pyval \<Rightarrow> int option" where
  "numeric_int (PInt i) = Some i"
| "numeric_int (PFloat x) = Some (trunc_toward_zero x)"
| "numeric_int (PBool b) = Some (if b then 1 else 0)"
| "numeric_int (PStr s) = None"
| "numeric_int PNone = None"

text \<open>\<^verbatim>\<open>list.index(v)\<close>: position of the first occurrence, \<^verbatim>\<open>ValueError\<close> when absent.\<close>

fun list_index :: "'a list \<Rightarrow> 'a \<Rightarrow> error + nat" where
  "list_index [] v = Inl ValueError"
| "list_index (x # xs) v =
     (if x = v then Inr 0
      else case list_index xs v of Inl e \<Rightarrow> Inl e | Inr i \<Rightarrow> Inr (Suc i))"

section \<open>Constants of the battery model\<close>

definition seconds_per_hour :: real where
  "seconds_per_hour = 3600"

definition hours_per_second :: real where
  "hours_per_second = 1 / seconds_per_hour"

definition battery_capacity :: real where
  "battery_capacity = 150"

definition battery_nominal_voltage :: real where
  "battery_nominal_voltage = 34"

definition model_constant :: real where
  "model_constant = 80"

definition max_voltage :: real where
  "max_voltage = ln (battery_capacity / model_constant + 1) * battery_nominal_voltage"

definition solar_power_max :: real where
  "solar_power_max = 150"

definition load_power_const :: real where
  "load_power_const = 100"

definition enum_strings :: "string list" where
  "enum_strings = [''Non-Eclipse'', ''Eclipse'']"

definition sim_interval :: real where
  "sim_interval = 1"

definition deltaT :: real where
  "deltaT = sim_interval * hours_per_second"

section \<open>The PV group and its construction\<close>

text \<open>
  The default values of the process variables (the \<^verbatim>\<open>value=\<close> arguments of the
  \<^verbatim>\<open>pvproperty\<close> declarations). \<open>source_defaults\<close> are the ones written in the file.
\<close>

record pv_defaults =
  d_V_real :: real
  d_I_real :: real
  d_V_sim :: real
  d_I_sim :: real
  d_V_target :: real
  d_Solar_power :: real
  d_Eclipse :: int

definition source_defaults :: pv_defaults where
  "source_defaults =
     \<lparr>d_V_real = 34.02, d_I_real = -0.24, d_V_sim = 32.0, d_I_sim = 0.0,
      d_V_target = 34.0, d_Solar_power = 110.0, d_Eclipse = 0\<rparr>"

text \<open>
  The instance: the current PV values and the attributes set in \<^verbatim>\<open>__init__\<close>.
  \<open>eclipse_begin\<close> is \<open>None\<close> while the attribute has not been assigned.
  \<open>loop_exc\<close> holds the exception that ended the simulation loop, if one was raised.
\<close>

record ioc =
  initOK :: bool
  sim_time :: real
  eclipse_half_duration :: real
  init_solar_power :: real
  eclipse_begin :: "real option"
  V_real :: real
  I_real :: real
  V_sim :: real
  I_sim :: real
  V_target :: real
  Solar_power :: real
  Eclipse :: int
  loop_exc :: "error option"

definition init :: "pv_defaults \<Rightarrow> ioc" where
  "init d =
     (let self = \<lparr>initOK = True, sim_time = 0, eclipse_half_duration = 3600,
                  init_solar_power = d_Solar_power d, eclipse_begin = None,
                  V_real = d_V_real d, I_real = d_I_real d, V_sim = d_V_sim d,
                  I_sim = d_I_sim d, V_target = d_V_target d,
                  Solar_power = d_Solar_power d, Eclipse = d_Eclipse d,
                  loop_exc = None\<rparr>
      in if V_sim self < 0 \<or> V_sim self > max_voltage then self\<lparr>initOK := False\<rparr>
         else if Solar_power self < 0 \<or> Solar_power self > solar_power_max
           then self\<lparr>initOK := False\<rparr>
         else if V_target self < 0 \<or> V_target self > max_voltage
           then self\<lparr>initOK := False\<rparr>
         else if Eclipse self = 1 then self\<lparr>eclipse_begin := Some (sim_time self)\<rparr>
         else self)"

text \<open>
  The main program: it exits with status 1 after printing one line when construction
  failed, and otherwise hands the PV group to the server, which starts the loop.
\<close>

datatype outcome = Exit int "string list" | Serving ioc

definition main :: "pv_defaults \<Rightarrow> outcome" where
  "main d =
     (let ioc = init d
      in if \<not> initOK ioc then Exit 1 [''Initialization failed!''] else Serving ioc)"

section \<open>The putters\<close>

text \<open>
  A putter receives the requested value and returns the value that is committed to the
  PV, together with the instance as its side effects leave it. \<open>instance.value\<close> is
  the value of the PV before the write.
\<close>

definition V_target_putter :: "ioc \<Rightarrow> real \<Rightarrow> real \<times> ioc" where
  "V_target_putter self v =
     (let new_value = max 0 (min v max_voltage) in (new_value, self))"

definition Eclipse_putter :: "ioc \<Rightarrow> pyval \<Rightarrow> int \<times> ioc" where
  "Eclipse_putter self v =
     (case v of
        PStr s \<Rightarrow>
          (case list_index enum_strings s of
             Inr n \<Rightarrow>
               (let new_value = int n
                in if new_value = 1 \<and> Eclipse self = 0
                     then (new_value, self\<lparr>eclipse_begin := Some (sim_time self)\<rparr>)
                   else if new_value = 0 \<and> Eclipse self = 1
                     then (new_value, self\<lparr>Solar_power := init_solar_power self\<rparr>)
                   else (new_value, self))
           | Inl e \<Rightarrow> (Eclipse self, self))
      | _ \<Rightarrow>
          (case numeric_int v of
             Some i \<Rightarrow>
               if 0 \<le> i \<and> i < 2 then
                 (if i = 1 \<and> Eclipse self = 0
                    then (i, self\<lparr>eclipse_begin := Some (sim_time self)\<rparr>)
                  else if i = 0 \<and> Eclipse self = 1
                    then (i, self\<lparr>Solar_power := init_solar_power self\<rparr>)
                  else (i, self))
               else (Eclipse self, self)
           | None \<Rightarrow> (Eclipse self, self)))"

text \<open>
  The PV layer (caproto) is outside the source. What it does with a value written to
  an enum PV before the putter runs is modelled here: it tries \<^verbatim>\<open>enum_strings[data]\<close>
  and passes the state name on when the indexing succeeds, the value itself when it
  raises \<^verbatim>\<open>IndexError\<close> or \<^verbatim>\<open>TypeError\<close>. Python indexing accepts a negative index,
  counted from the end, and a bool as the integer it is.
\<close>

definition py_getitem :: "'a list \<Rightarrow> int \<Rightarrow> error + 'a" where
  "py_getitem xs i =
     (if 0 \<le> i \<and> i < int (length xs) then Inr (xs ! nat i)
      else if - int (length xs) \<le> i \<and> i < 0 then Inr (xs ! nat (int (length xs) + i))
      else Inl IndexError)"

fun enum_lookup :: "pyval \<Rightarrow> error + string" where
  "enum_lookup (PInt i) = py_getitem enum_strings i"
| "enum_lookup (PBool b) = py_getitem enum_strings (if b then 1 else 0)"
| "enum_lookup (PFloat x) = Inl TypeError"
| "enum_lookup (PStr str) = Inl TypeError"
| "enum_lookup PNone = Inl TypeError"

definition enum_verify_value :: "pyval \<Rightarrow> pyval" where
  "enum_verify_value v = (case enum_lookup v of Inr str \<Rightarrow> PStr str | Inl e \<Rightarrow> v)"

text \<open>
  A write to a PV with a putter, from a client or from the loop, runs the putter and
  commits what it returns; for the enum PV the putter receives the value as the PV
  layer passes it on. The \<open>Eclipse\<close> PV is taken to hold the integer state, as the
  comparisons in the source read it. A write to a PV without a putter stores the
  value.
\<close>

definition V_target_write :: "ioc \<Rightarrow> real \<Rightarrow> ioc" where
  "V_target_write self v =
     (case V_target_putter self v of (c, self') \<Rightarrow> self'\<lparr>V_target := c\<rparr>)"

definition Eclipse_write :: "ioc \<Rightarrow> pyval \<Rightarrow> ioc" where
  "Eclipse_write self v =
     (case Eclipse_putter self (enum_verify_value v) of
        (c, self') \<Rightarrow> self'\<lparr>Eclipse := c\<rparr>)"

section \<open>One iteration of the simulation loop\<close>

text \<open>The voltage increment both branches compute (the two source lines are identical).\<close>

definition deltaV_of :: "real \<Rightarrow> real \<Rightarrow> real" where
  "deltaV_of charging_power Vsim_value =
     (let tmp = exp (Vsim_value / battery_nominal_voltage)
      in charging_power * deltaT * battery_nominal_voltage / (model_constant * tmp))"

text \<open>The update of \<open>V_sim\<close> and \<open>I_sim\<close>.\<close>

definition charge_update :: "ioc \<Rightarrow> error + ioc" where
  "charge_update self =
     (let Vsim_value = V_sim self;
          target_V = V_target self;
          sp_value = Solar_power self;
          charging_power = sp_value - load_power_const
      in if charging_power > 0 \<and> Vsim_value < target_V then
           (let deltaV = deltaV_of charging_power Vsim_value;
                Vsim_value1 = Vsim_value + deltaV;
                Vsim_value2 = min Vsim_value1 target_V
            in Inr (self\<lparr>V_sim := Vsim_value2, I_sim := 0\<rparr>))
         else if charging_power < 0 then
           (case py_div charging_power Vsim_value of
              Inl e \<Rightarrow> Inl e
            | Inr Isim_value \<Rightarrow>
                (let deltaV = deltaV_of charging_power Vsim_value;
                     Vsim_value1 = Vsim_value + deltaV;
                     Vsim_value2 = max Vsim_value1 0
                 in Inr (self\<lparr>V_sim := Vsim_value2, I_sim := Isim_value\<rparr>)))
         else Inr self)"

text \<open>The two solar-power formulas of the eclipse branch.\<close>

definition eclipse_entry_power :: "real \<Rightarrow> real \<Rightarrow> real" where
  "eclipse_entry_power isp tmp = isp * cos (0.5 * pi * tmp)"

definition eclipse_exit_power :: "real \<Rightarrow> real \<Rightarrow> real" where
  "eclipse_exit_power isp tmp = - isp * cos (0.5 * pi * tmp)"

text \<open>
  The update of \<open>Solar_power\<close>. Reading \<open>eclipse_begin\<close> before it was assigned raises
  \<^verbatim>\<open>AttributeError\<close>. Clearing the flag is a write to the \<open>Eclipse\<close> PV.
\<close>

definition solar_update :: "ioc \<Rightarrow> error + ioc" where
  "solar_update self =
     (if Eclipse self = 1 then
        (case eclipse_begin self of
           None \<Rightarrow> Inl AttributeError
         | Some b \<Rightarrow>
             (case py_div (sim_time self - b) (eclipse_half_duration self) of
                Inl e \<Rightarrow> Inl e
              | Inr tmp \<Rightarrow>
                  if tmp > 0 \<and> tmp \<le> 1 then
                    Inr (self\<lparr>Solar_power :=
                           eclipse_entry_power (init_solar_power self) tmp\<rparr>)
                  else if tmp > 1 \<and> tmp \<le> 2 then
                    Inr (self\<lparr>Solar_power :=
                           eclipse_exit_power (init_solar_power self) tmp\<rparr>)
                  else if tmp > 2 then Inr (Eclipse_write self (PInt 0))
                  else Inr self))
      else Inr self)"

text \<open>
  One pass through the body of \<^verbatim>\<open>while True\<close>. \<open>Inl (e, s)\<close>: exception \<open>e\<close> was
  raised, and \<open>s\<close> is the instance as the writes made before it left it.
\<close>

definition tick :: "ioc \<Rightarrow> (error \<times> ioc) + ioc" where
  "tick self =
     (case charge_update self of
        Inl e \<Rightarrow> Inl (e, self)
      | Inr s1 \<Rightarrow>
          (case solar_update s1 of
             Inl e \<Rightarrow> Inl (e, s1)
           | Inr s2 \<Rightarrow> Inr (s2\<lparr>sim_time := sim_time s2 + sim_interval\<rparr>)))"

section \<open>The running server\<close>

text \<open>
  Once served, the instance changes by loop iterations and by client writes. Every PV
  of the group is declared without \<^verbatim>\<open>read_only\<close>, so a client can write each of them:
  the target voltage and the eclipse flag through their putters, the other five
  directly. An exception ends the loop: later iterations do not run. A loop iteration
  is taken as one step: write requests are served between iterations.
\<close>

datatype event =
  Tick
  | Put_V_target real
  | Put_Eclipse pyval
  | Put_V_sim real
  | Put_I_sim real
  | Put_Solar_power real
  | Put_V_real real
  | Put_I_real real

fun step :: "ioc \<Rightarrow> event \<Rightarrow> ioc" where
  "step s Tick =
     (if loop_exc s \<noteq> None then s
      else case tick s of
             Inl (e, s') \<Rightarrow> s'\<lparr>loop_exc := Some e\<rparr>
           | Inr s' \<Rightarrow> s')"
| "step s (Put_V_target v) = V_target_write s v"
| "step s (Put_Eclipse v) = Eclipse_write s v"
| "step s (Put_V_sim v) = s\<lparr>V_sim := v\<rparr>"
| "step s (Put_I_sim v) = s\<lparr>I_sim := v\<rparr>"
| "step s (Put_Solar_power v) = s\<lparr>Solar_power := v\<rparr>"
| "step s (Put_V_real v) = s\<lparr>V_real := v\<rparr>"
| "step s (Put_I_real v) = s\<lparr>I_real := v\<rparr>"

fun run :: "ioc \<Rightarrow> event list \<Rightarrow> ioc" where
  "run s [] = s"
| "run s (e # es) = run (step s e) es"

text \<open>What is published after a sequence of events: nothing when the program exited.\<close>

fun published :: "outcome \<Rightarrow> event list \<Rightarrow> ioc option" where
  "published (Exit code out) es = None"
| "published (Serving s) es = Some (run s es)"

section \<open>The clamp of the specification\<close>

text \<open>\<open>clamp x lo hi\<close> as the specification uses it: \<open>x\<close> limited to \<open>[lo, hi]\<close>.\<close>

definition spec_clamp :: "real \<Rightarrow> real \<Rightarrow> real \<Rightarrow> real" where
  "spec_clamp x lo hi = (if x < lo then lo else if x > hi then hi else x)"

section \<open>Auxiliary notions for the proofs\<close>

text \<open>
  The state a value handed to the putter resolves to: \<open>Some 0\<close> or \<open>Some 1\<close> when the
  putter accepts it, \<open>None\<close> when the putter rejects it.
\<close>

definition requested_state :: "pyval \<Rightarrow> int option" where
  "requested_state v =
     (case v of
        PStr s \<Rightarrow> (if s = ''Non-Eclipse'' then Some 0 else if s = ''Eclipse'' then Some 1
                   else None)
      | _ \<Rightarrow> (case numeric_int v of
                Some i \<Rightarrow> if 0 \<le> i \<and> i < 2 then Some i else None
              | None \<Rightarrow> None))"

text \<open>
  The validity ranges of the voltages and of the solar power. \<open>solar_inv\<close> bounds the
  solar power by the value captured at startup, \<open>solar_range\<close> by the maximum.
\<close>

definition voltage_inv :: "ioc \<Rightarrow> bool" where
  "voltage_inv s \<longleftrightarrow>
     0 \<le> V_sim s \<and> V_sim s \<le> max_voltage \<and> 0 \<le> V_target s \<and> V_target s \<le> max_voltage"

definition solar_inv :: "ioc \<Rightarrow> bool" where
  "solar_inv s \<longleftrightarrow>
     0 \<le> init_solar_power s \<and> init_solar_power s \<le> solar_power_max
     \<and> 0 \<le> Solar_power s \<and> Solar_power s \<le> init_solar_power s"

definition solar_range :: "ioc \<Rightarrow> bool" where
  "solar_range s \<longleftrightarrow>
     0 \<le> init_solar_power s \<and> init_solar_power s \<le> solar_power_max
     \<and> 0 \<le> Solar_power s \<and> Solar_power s \<le> solar_power_max"

text \<open>
  A client write that keeps the written PV inside its validity range: a direct write
  to the simulated voltage inside \<open>[0, max_voltage]\<close>, a direct write to the solar power
  inside \<open>[0, solar_power_max]\<close>. Every other event passes.
\<close>

fun V_sim_write_ok :: "event \<Rightarrow> bool" where
  "V_sim_write_ok (Put_V_sim v) = (0 \<le> v \<and> v \<le> max_voltage)"
| "V_sim_write_ok e = True"

fun Solar_power_write_ok :: "event \<Rightarrow> bool" where
  "Solar_power_write_ok (Put_Solar_power v) = (0 \<le> v \<and> v \<le> solar_power_max)"
| "Solar_power_write_ok e = True"

text \<open>
  Notions for following the loop through an eclipse. \<open>in_eclipse t0 k s\<close>: the loop is
  running \<open>k\<close> iterations into an eclipse entered at time \<open>t0\<close>, with the target
  voltage at \<open>0\<close>; from iteration 2401 on the solar power is at most 55 W.
  \<open>between_eclipses\<close> is the same without the position in the eclipse. \<open>crashed\<close>: the
  loop has ended with \<^verbatim>\<open>ZeroDivisionError\<close>. \<open>eclipse_block\<close>: the eclipse flag is
  written to 0, then to 1, and 3601 iterations follow.
\<close>

definition in_eclipse :: "real \<Rightarrow> nat \<Rightarrow> ioc \<Rightarrow> bool" where
  "in_eclipse t0 k s \<longleftrightarrow>
     loop_exc s = None \<and> Eclipse s = 1 \<and> eclipse_begin s = Some t0
     \<and> sim_time s = t0 + real k \<and> eclipse_half_duration s = 3600
     \<and> init_solar_power s = 110 \<and> V_target s = 0
     \<and> 0 \<le> V_sim s \<and> V_sim s \<le> 32
     \<and> 0 \<le> Solar_power s \<and> Solar_power s \<le> 110
     \<and> (2401 \<le> k \<longrightarrow> Solar_power s \<le> 55)"

definition between_eclipses :: "ioc \<Rightarrow> bool" where
  "between_eclipses s \<longleftrightarrow>
     loop_exc s = None \<and> (Eclipse s = 0 \<or> Eclipse s = 1)
     \<and> eclipse_half_duration s = 3600
     \<and> init_solar_power s = 110 \<and> V_target s = 0
     \<and> 0 \<le> V_sim s \<and> V_sim s \<le> 32
     \<and> 0 \<le> Solar_power s \<and> Solar_power s \<le> 110"

definition crashed :: "ioc \<Rightarrow> bool" where
  "crashed s \<longleftrightarrow> loop_exc s = Some ZeroDivisionError"

definition eclipse_block :: "event list" where
  "eclipse_block = Put_Eclipse (PInt 0) # Put_Eclipse (PInt 1) # replicate 3601 Tick"

section \<open>Basic facts\<close>

lemma exp_one_bound: "exp (1::real) < 23 / 8"
proof -
  have "exp (1/8 :: real) \<le> 1 + 1/8 + (1/8)\<^sup>2"
    by (rule exp_bound) simp_all
  then have b: "exp (1/8 :: real) \<le> 73 / 64"
    by (simp add: power2_eq_square)
  have "exp (1::real) = exp (8 * (1/8))"
    by simp
  also have "\<dots> = exp (1/8 :: real) ^ 8"
    by (simp only: exp_of_nat_mult [symmetric] of_nat_numeral)
  also have "\<dots> \<le> (73 / 64) ^ 8"
    using b by (intro power_mono) simp_all
  also have "\<dots> < (23 / 8 :: real)"
    by (simp add: power_divide)
  finally show ?thesis .
qed

lemma max_voltage_ge_nominal: "34 \<le> max_voltage"
proof -
  have "exp (1::real) \<le> 150 / 80 + 1"
    using exp_one_bound by simp
  then have "1 \<le> ln (150 / 80 + 1 :: real)"
    by (simp add: ln_ge_iff)
  then show ?thesis
    by (simp add: max_voltage_def battery_capacity_def model_constant_def
        battery_nominal_voltage_def)
qed

lemma max_voltage_pos: "0 < max_voltage"
  using max_voltage_ge_nominal by linarith

lemma init_source_defaults:
  "init source_defaults =
     \<lparr>initOK = True, sim_time = 0, eclipse_half_duration = 3600,
      init_solar_power = 110, eclipse_begin = None,
      V_real = 34.02, I_real = -0.24, V_sim = 32, I_sim = 0, V_target = 34,
      Solar_power = 110, Eclipse = 0, loop_exc = None\<rparr>"
  using max_voltage_ge_nominal
  by (simp add: init_def source_defaults_def solar_power_max_def)

lemma deltaV_of_pos: "0 < p \<Longrightarrow> 0 < deltaV_of p v"
  by (simp add: deltaV_of_def deltaT_def sim_interval_def hours_per_second_def
      seconds_per_hour_def battery_nominal_voltage_def model_constant_def)

lemma deltaV_of_neg: "p < 0 \<Longrightarrow> deltaV_of p v < 0"
  by (simp add: deltaV_of_def deltaT_def sim_interval_def hours_per_second_def
      seconds_per_hour_def battery_nominal_voltage_def model_constant_def
      divide_neg_pos mult_neg_pos)

lemma deltaV_of_unfold:
  "deltaV_of p v =
     p * deltaT * battery_nominal_voltage /
       (model_constant * exp (v / battery_nominal_voltage))"
  by (simp add: deltaV_of_def)

section \<open>The charging branch\<close>

lemma charge_update_charging:
  assumes "Solar_power self - load_power_const > 0" and "V_sim self < V_target self"
  shows "charge_update self =
           Inr (self\<lparr>V_sim := min (V_sim self
                   + deltaV_of (Solar_power self - load_power_const) (V_sim self))
                   (V_target self),
                 I_sim := 0\<rparr>)"
  using assms by (simp add: charge_update_def Let_def)

lemma scenario1_deltaV_small:
  "(10::real) * (1 / 3600) * 34 / (80 * exp (32 / 34)) \<le> 2"
proof -
  have "(1::real) \<le> exp (32 / 34)"
    by simp
  then have "(340::real) \<le> 2 * (3600 * (80 * exp (32 / 34)))"
    by linarith
  then show ?thesis
    by (simp add: field_simps)
qed

text \<open>
  C1. When the net power \<open>Solar_power - load_power_const\<close> is positive and the
  simulated voltage is strictly below the target, the charging branch writes
  \<open>min (V + deltaV) target\<close> to \<open>V_sim\<close>, with
  \<open>deltaV = net * deltaT * nominal / (model_constant * exp (V / nominal))\<close>, and \<open>0\<close> to
  \<open>I_sim\<close>. In particular, from the defaults of the source (32 V, target 34 V, solar
  power 110 W, load 100 W, one second per iteration) one iteration advances the voltage
  by \<open>10 * (1/3600) * 34 / (80 * exp (32/34))\<close> and sets the current to \<open>0\<close>.
\<close>

theorem charging_branch_formula:
  "(Solar_power self - load_power_const > 0 \<and> V_sim self < V_target self \<longrightarrow>
      charge_update self =
        Inr (self\<lparr>V_sim := min (V_sim self
                + (Solar_power self - load_power_const) * deltaT * battery_nominal_voltage
                  / (model_constant * exp (V_sim self / battery_nominal_voltage)))
                (V_target self),
              I_sim := 0\<rparr>))
   \<and> deltaT = 1 / 3600 \<and> battery_nominal_voltage = 34 \<and> model_constant = 80
   \<and> load_power_const = 100
   \<and> (\<exists>s'. tick (init source_defaults) = Inr s'
          \<and> V_sim s' = 32 + 10 * (1 / 3600) * 34 / (80 * exp (32 / 34))
          \<and> I_sim s' = 0)"
proof -
  have general: "Solar_power self - load_power_const > 0 \<and> V_sim self < V_target self \<longrightarrow>
      charge_update self =
        Inr (self\<lparr>V_sim := min (V_sim self
                + (Solar_power self - load_power_const) * deltaT * battery_nominal_voltage
                  / (model_constant * exp (V_sim self / battery_nominal_voltage)))
                (V_target self),
              I_sim := 0\<rparr>)"
    using charge_update_charging [of self] by (simp add: deltaV_of_unfold)
  have cvals: "deltaT = 1 / 3600" "battery_nominal_voltage = 34" "model_constant = 80"
    "load_power_const = 100"
    by (simp_all add: deltaT_def sim_interval_def hours_per_second_def
        seconds_per_hour_def battery_nominal_voltage_def model_constant_def
        load_power_const_def)
  let ?s0 = "init source_defaults"
  have net: "Solar_power ?s0 - load_power_const > 0" and low: "V_sim ?s0 < V_target ?s0"
    by (simp_all add: init_source_defaults load_power_const_def)
  have dv: "deltaV_of (Solar_power ?s0 - load_power_const) (V_sim ?s0)
              = 10 * (1 / 3600) * 34 / (80 * exp (32 / 34))"
    by (simp add: deltaV_of_unfold cvals init_source_defaults)
  have cu: "charge_update ?s0 =
      Inr (?s0\<lparr>V_sim := 32 + 10 * (1 / 3600) * 34 / (80 * exp (32 / 34)), I_sim := 0\<rparr>)"
  proof -
    have "min (V_sim ?s0 + 10 * (1 / 3600) * 34 / (80 * exp (32 / 34))) (V_target ?s0)
            = 32 + 10 * (1 / 3600) * 34 / (80 * exp (32 / 34))"
      using scenario1_deltaV_small by (simp add: init_source_defaults min_def)
    then show ?thesis
      using charge_update_charging [OF net low] by (simp only: dv)
  qed
  have su: "solar_update (?s0\<lparr>V_sim := v, I_sim := 0\<rparr>) = Inr (?s0\<lparr>V_sim := v, I_sim := 0\<rparr>)"
    for v
    by (simp add: solar_update_def init_source_defaults)
  have "\<exists>s'. tick ?s0 = Inr s'
          \<and> V_sim s' = 32 + 10 * (1 / 3600) * 34 / (80 * exp (32 / 34))
          \<and> I_sim s' = 0"
    by (simp add: tick_def cu su)
  with general cvals show ?thesis
    by blast
qed

theorem charging_branch_formula_witness:
  "Solar_power (init source_defaults) - load_power_const > 0
   \<and> V_sim (init source_defaults) < V_target (init source_defaults)
   \<and> (\<exists>s'. charge_update (init source_defaults) = Inr s' \<and> I_sim s' = 0
          \<and> V_sim s' \<le> V_target (init source_defaults))"
proof -
  have h: "Solar_power (init source_defaults) - load_power_const > 0
           \<and> V_sim (init source_defaults) < V_target (init source_defaults)"
    by (simp add: init_source_defaults load_power_const_def)
  with charging_branch_formula [of "init source_defaults"] show ?thesis
    by simp
qed

section \<open>The target-voltage putter\<close>

text \<open>
  C6. For every real \<open>requestedV\<close> the target-voltage putter commits
  \<open>clamp requestedV 0 max_voltage\<close>: the committed value lies in \<open>[0, max_voltage]\<close>,
  it is \<open>requestedV\<close> itself when that is in the range, and the putter changes nothing
  else (a write changes the \<open>V_target\<close> PV only).
\<close>

theorem V_target_putter_clamps:
  "fst (V_target_putter self requestedV) = spec_clamp requestedV 0 max_voltage
   \<and> 0 \<le> fst (V_target_putter self requestedV)
   \<and> fst (V_target_putter self requestedV) \<le> max_voltage
   \<and> (0 \<le> requestedV \<and> requestedV \<le> max_voltage \<longrightarrow>
        fst (V_target_putter self requestedV) = requestedV)
   \<and> snd (V_target_putter self requestedV) = self
   \<and> V_target_write self requestedV
        = self\<lparr>V_target := spec_clamp requestedV 0 max_voltage\<rparr>"
  using max_voltage_pos
  by (auto simp add: V_target_putter_def V_target_write_def spec_clamp_def Let_def)

theorem V_target_putter_clamps_witness:
  "0 \<le> (20::real) \<and> 20 \<le> max_voltage
   \<and> fst (V_target_putter (init source_defaults) 20) = 20"
  using V_target_putter_clamps [of "init source_defaults" 20] max_voltage_ge_nominal
  by simp

section \<open>The discharging branch\<close>

lemma charge_update_discharging:
  assumes "Solar_power self - load_power_const < 0" and "V_sim self \<noteq> 0"
  shows "charge_update self =
           Inr (self\<lparr>V_sim := max (V_sim self
                   + deltaV_of (Solar_power self - load_power_const) (V_sim self)) 0,
                 I_sim := (Solar_power self - load_power_const) / V_sim self\<rparr>)"
  using assms by (simp add: charge_update_def py_div_def Let_def)

lemma charge_update_zero_voltage:
  assumes "Solar_power self - load_power_const < 0" and "V_sim self = 0"
  shows "charge_update self = Inl ZeroDivisionError"
  using assms by (simp add: charge_update_def py_div_def Let_def)

lemma charge_update_idle:
  assumes "\<not> (Solar_power self - load_power_const > 0 \<and> V_sim self < V_target self)"
    and "\<not> Solar_power self - load_power_const < 0"
  shows "charge_update self = Inr self"
  using assms by (auto simp add: charge_update_def Let_def)

text \<open>
  C2, as the code has it. When the net power is negative and the simulated voltage is
  not zero, the discharging branch writes \<open>net / V\<close> (with the voltage read at the start
  of the iteration) to \<open>I_sim\<close> and \<open>max (V + deltaV) 0\<close> to \<open>V_sim\<close>, where \<open>deltaV\<close> is
  given by the formula of the charging branch and is negative. With 32 V, no solar
  power and the 100 W load, the current is \<open>-3.125\<close> and the voltage decreases and
  stays non-negative.
\<close>

theorem discharging_branch_formula:
  "(Solar_power self - load_power_const < 0 \<and> V_sim self \<noteq> 0 \<longrightarrow>
      charge_update self =
        Inr (self\<lparr>V_sim := max (V_sim self
                + (Solar_power self - load_power_const) * deltaT * battery_nominal_voltage
                  / (model_constant * exp (V_sim self / battery_nominal_voltage))) 0,
              I_sim := (Solar_power self - load_power_const) / V_sim self\<rparr>)
      \<and> (Solar_power self - load_power_const) * deltaT * battery_nominal_voltage
            / (model_constant * exp (V_sim self / battery_nominal_voltage)) < 0)
   \<and> (\<exists>s'. charge_update ((init source_defaults)\<lparr>Solar_power := 0\<rparr>) = Inr s'
          \<and> I_sim s' = - 3.125
          \<and> V_sim s' = max (32 + (- 100) * (1 / 3600) * 34 / (80 * exp (32 / 34))) 0
          \<and> V_sim s' < 32 \<and> 0 \<le> V_sim s')"
proof -
  have general: "Solar_power self - load_power_const < 0 \<and> V_sim self \<noteq> 0 \<longrightarrow>
      charge_update self =
        Inr (self\<lparr>V_sim := max (V_sim self
                + (Solar_power self - load_power_const) * deltaT * battery_nominal_voltage
                  / (model_constant * exp (V_sim self / battery_nominal_voltage))) 0,
              I_sim := (Solar_power self - load_power_const) / V_sim self\<rparr>)
      \<and> (Solar_power self - load_power_const) * deltaT * battery_nominal_voltage
            / (model_constant * exp (V_sim self / battery_nominal_voltage)) < 0"
    using charge_update_discharging [of self]
      deltaV_of_neg [of "Solar_power self - load_power_const" "V_sim self"]
    by (simp add: deltaV_of_unfold)
  let ?s = "(init source_defaults)\<lparr>Solar_power := 0\<rparr>"
  have net: "Solar_power ?s - load_power_const < 0" and nz: "V_sim ?s \<noteq> 0"
    by (simp_all add: init_source_defaults load_power_const_def)
  have dv: "deltaV_of (Solar_power ?s - load_power_const) (V_sim ?s)
              = (- 100) * (1 / 3600) * 34 / (80 * exp (32 / 34))"
    by (simp add: deltaV_of_unfold init_source_defaults deltaT_def sim_interval_def
        hours_per_second_def seconds_per_hour_def battery_nominal_voltage_def
        model_constant_def load_power_const_def)
  have neg: "deltaV_of (Solar_power ?s - load_power_const) (V_sim ?s) < 0"
    using net by (rule deltaV_of_neg)
  have cu: "charge_update ?s =
      Inr (?s\<lparr>V_sim := max (32 + (- 100) * (1 / 3600) * 34 / (80 * exp (32 / 34))) 0,
               I_sim := - 3.125\<rparr>)"
    using charge_update_discharging [OF net nz] unfolding dv
    by (simp add: init_source_defaults load_power_const_def)
  have "max (32 + (- 100) * (1 / 3600) * 34 / (80 * exp (32 / 34))) 0 < (32::real)"
    using neg unfolding dv by simp
  with cu have "\<exists>s'. charge_update ?s = Inr s'
          \<and> I_sim s' = - 3.125
          \<and> V_sim s' = max (32 + (- 100) * (1 / 3600) * 34 / (80 * exp (32 / 34))) 0
          \<and> V_sim s' < 32 \<and> 0 \<le> V_sim s'"
    by simp
  with general show ?thesis
    by blast
qed

theorem discharging_branch_formula_witness:
  "Solar_power ((init source_defaults)\<lparr>Solar_power := 0\<rparr>) - load_power_const < 0
   \<and> V_sim ((init source_defaults)\<lparr>Solar_power := 0\<rparr>) \<noteq> 0
   \<and> (\<exists>s'. charge_update ((init source_defaults)\<lparr>Solar_power := 0\<rparr>) = Inr s'
          \<and> I_sim s' = (0 - 100) / 32)"
proof -
  have h: "Solar_power ((init source_defaults)\<lparr>Solar_power := 0\<rparr>) - load_power_const < 0
           \<and> V_sim ((init source_defaults)\<lparr>Solar_power := 0\<rparr>) \<noteq> 0"
    by (simp add: init_source_defaults load_power_const_def)
  with discharging_branch_formula [of "(init source_defaults)\<lparr>Solar_power := 0\<rparr>"]
  show ?thesis
    by (simp add: init_source_defaults load_power_const_def)
qed

text \<open>
  C2 does not hold for every iteration with negative net power: at a simulated voltage
  of exactly \<open>0\<close> (inside the validity range, and the value the floor \<open>max _ 0\<close> writes)
  the division raises and neither PV is written.
\<close>

theorem discharging_at_zero_voltage_raises:
  "Solar_power ((init source_defaults)\<lparr>V_sim := 0, Solar_power := 0\<rparr>)
      - load_power_const < 0
   \<and> charge_update ((init source_defaults)\<lparr>V_sim := 0, Solar_power := 0\<rparr>)
        = Inl ZeroDivisionError"
  by (simp add: charge_update_zero_voltage init_source_defaults load_power_const_def)

section \<open>Frame and invariant lemmas\<close>

lemma charge_update_frame:
  assumes "charge_update s = Inr s'"
  shows "V_target s' = V_target s" "Solar_power s' = Solar_power s"
    "init_solar_power s' = init_solar_power s" "Eclipse s' = Eclipse s"
    "eclipse_begin s' = eclipse_begin s" "sim_time s' = sim_time s"
    "eclipse_half_duration s' = eclipse_half_duration s" "loop_exc s' = loop_exc s"
  using assms
  by (auto simp add: charge_update_def Let_def py_div_def split: if_splits)

lemma list_index_enum_strings:
  "list_index enum_strings s =
     (if s = ''Non-Eclipse'' then Inr 0 else if s = ''Eclipse'' then Inr 1
      else Inl ValueError)"
  by (auto simp add: enum_strings_def)

lemma requested_state_range: "requested_state v = Some n \<Longrightarrow> n = 0 \<or> n = 1"
  by (cases v) (auto simp add: requested_state_def split: if_splits)

lemma Eclipse_putter_resolved:
  "Eclipse_putter s v =
     (case requested_state v of
        None \<Rightarrow> (Eclipse s, s)
      | Some n \<Rightarrow>
          if n = 1 \<and> Eclipse s = 0 then (n, s\<lparr>eclipse_begin := Some (sim_time s)\<rparr>)
          else if n = 0 \<and> Eclipse s = 1 then (n, s\<lparr>Solar_power := init_solar_power s\<rparr>)
          else (n, s))"
  by (cases v)
    (simp_all add: Eclipse_putter_def requested_state_def list_index_enum_strings Let_def)

lemma Eclipse_putter_frame:
  assumes "Eclipse_putter s v = (c, s')"
  shows "V_sim s' = V_sim s" "I_sim s' = I_sim s" "V_target s' = V_target s"
    "init_solar_power s' = init_solar_power s" "sim_time s' = sim_time s"
    "eclipse_half_duration s' = eclipse_half_duration s" "loop_exc s' = loop_exc s"
    "Eclipse s' = Eclipse s"
    "Solar_power s' = Solar_power s \<or> Solar_power s' = init_solar_power s"
  using assms unfolding Eclipse_putter_resolved
  by (auto split: option.splits if_splits)

lemma enum_verify_value_PInt:
  "enum_verify_value (PInt i) =
     (if i = 0 \<or> i = - 2 then PStr ''Non-Eclipse''
      else if i = 1 \<or> i = - 1 then PStr ''Eclipse''
      else PInt i)"
proof -
  consider "i = 0" | "i = 1" | "i = - 1" | "i = - 2" | "i < - 2 \<or> 2 \<le> i"
    by linarith
  then show ?thesis
    by cases (auto simp add: enum_verify_value_def py_getitem_def enum_strings_def)
qed

lemma enum_verify_value_other:
  shows "enum_verify_value (PBool True) = PStr ''Eclipse''"
    and "enum_verify_value (PBool False) = PStr ''Non-Eclipse''"
    and "enum_verify_value (PFloat x) = PFloat x"
    and "enum_verify_value (PStr str) = PStr str"
    and "enum_verify_value PNone = PNone"
  by (simp_all add: enum_verify_value_def py_getitem_def enum_strings_def)

text \<open>
  The state a written value resolves to: as for the putter, except that the PV layer
  turns the indices \<open>-1\<close> and \<open>-2\<close> into state names first.
\<close>

lemma requested_state_written:
  "requested_state (enum_verify_value v) =
     (if v = PInt (- 1) then Some 1 else if v = PInt (- 2) then Some 0
      else requested_state v)"
proof (cases v)
  case (PInt i)
  then show ?thesis
    by (auto simp add: enum_verify_value_PInt requested_state_def)
next
  case (PBool b)
  then show ?thesis
    by (cases b) (simp_all add: enum_verify_value_other requested_state_def)
qed (simp_all add: enum_verify_value_other)

lemma Eclipse_write_resolved:
  "Eclipse_write s v =
     (case requested_state (enum_verify_value v) of
        None \<Rightarrow> s
      | Some n \<Rightarrow>
          if n = 1 \<and> Eclipse s = 0
            then s\<lparr>eclipse_begin := Some (sim_time s), Eclipse := 1\<rparr>
          else if n = 0 \<and> Eclipse s = 1
            then s\<lparr>Solar_power := init_solar_power s, Eclipse := 0\<rparr>
          else s\<lparr>Eclipse := n\<rparr>)"
  by (simp add: Eclipse_write_def Eclipse_putter_resolved split: option.splits)

lemma Eclipse_write_PInt_0:
  "Eclipse_write s (PInt 0) =
     (if Eclipse s = 1 then s\<lparr>Solar_power := init_solar_power s, Eclipse := 0\<rparr>
      else s\<lparr>Eclipse := 0\<rparr>)"
  by (simp add: Eclipse_write_resolved enum_verify_value_PInt requested_state_def)

lemma Eclipse_write_PInt_1:
  "Eclipse_write s (PInt 1) =
     (if Eclipse s = 0 then s\<lparr>eclipse_begin := Some (sim_time s), Eclipse := 1\<rparr>
      else s\<lparr>Eclipse := 1\<rparr>)"
  by (simp add: Eclipse_write_resolved enum_verify_value_PInt requested_state_def)

lemma Eclipse_write_frame:
  shows "V_sim (Eclipse_write s v) = V_sim s" "I_sim (Eclipse_write s v) = I_sim s"
    "V_target (Eclipse_write s v) = V_target s"
    "init_solar_power (Eclipse_write s v) = init_solar_power s"
    "sim_time (Eclipse_write s v) = sim_time s"
    "eclipse_half_duration (Eclipse_write s v) = eclipse_half_duration s"
    "loop_exc (Eclipse_write s v) = loop_exc s"
  by (simp_all add: Eclipse_write_resolved split: option.splits)

lemma Eclipse_write_Solar_power:
  "Solar_power (Eclipse_write s v) = Solar_power s
     \<or> Solar_power (Eclipse_write s v) = init_solar_power s"
  by (simp add: Eclipse_write_resolved split: option.splits)

lemma V_target_write_eq:
  "V_target_write s v = s\<lparr>V_target := max 0 (min v max_voltage)\<rparr>"
  by (simp add: V_target_write_def V_target_putter_def Let_def)

lemma solar_update_frame:
  assumes "solar_update s = Inr s'"
  shows "V_sim s' = V_sim s" "I_sim s' = I_sim s" "V_target s' = V_target s"
    "init_solar_power s' = init_solar_power s" "sim_time s' = sim_time s"
    "eclipse_half_duration s' = eclipse_half_duration s" "loop_exc s' = loop_exc s"
  using assms
  by (auto simp add: solar_update_def Eclipse_write_frame
      split: if_splits option.splits sum.splits)

section \<open>Bounds of the eclipse formulas\<close>

lemma eclipse_entry_power_bounds:
  assumes "0 \<le> isp" and "0 < tmp" and "tmp \<le> 1"
  shows "0 \<le> eclipse_entry_power isp tmp" and "eclipse_entry_power isp tmp \<le> isp"
proof -
  have "0 \<le> 0.5 * pi * tmp" and "0.5 * pi * tmp \<le> pi / 2"
    using assms pi_gt_zero by (simp_all add: mult_left_le)
  then have "0 \<le> cos (0.5 * pi * tmp)"
    by (intro cos_ge_zero) linarith+
  with assms show "0 \<le> eclipse_entry_power isp tmp"
    by (simp add: eclipse_entry_power_def)
  have "isp * cos (0.5 * pi * tmp) \<le> isp * 1"
    using assms by (intro mult_left_mono) simp_all
  then show "eclipse_entry_power isp tmp \<le> isp"
    by (simp add: eclipse_entry_power_def)
qed

lemma eclipse_exit_power_bounds:
  assumes "0 \<le> isp" and "1 < tmp" and "tmp \<le> 2"
  shows "0 \<le> eclipse_exit_power isp tmp" and "eclipse_exit_power isp tmp \<le> isp"
proof -
  have lo: "pi / 2 \<le> 0.5 * pi * tmp" and hi: "0.5 * pi * tmp \<le> pi"
    using assms pi_gt_zero by simp_all
  have "cos (0.5 * pi * tmp) \<le> cos (pi / 2)"
    using lo hi pi_gt_zero by (intro cos_monotone_0_pi_le) simp_all
  then have np: "cos (0.5 * pi * tmp) \<le> 0"
    by simp
  have "0 \<le> isp * (- cos (0.5 * pi * tmp))"
    using assms np by (intro mult_nonneg_nonneg) simp_all
  then show "0 \<le> eclipse_exit_power isp tmp"
    by (simp add: eclipse_exit_power_def)
  have "isp * (- cos (0.5 * pi * tmp)) \<le> isp * 1"
    using assms by (intro mult_left_mono) (simp_all add: minus_le_iff)
  then show "eclipse_exit_power isp tmp \<le> isp"
    by (simp add: eclipse_exit_power_def)
qed

lemma charge_update_V_sim_range:
  assumes "voltage_inv s" and "charge_update s = Inr s'"
  shows "0 \<le> V_sim s'" and "V_sim s' \<le> max_voltage"
proof -
  let ?p = "Solar_power s - load_power_const"
  consider (charging) "?p > 0 \<and> V_sim s < V_target s"
    | (discharging) "\<not> (?p > 0 \<and> V_sim s < V_target s)" "?p < 0"
    | (idle) "\<not> (?p > 0 \<and> V_sim s < V_target s)" "\<not> ?p < 0"
    by blast
  then have "0 \<le> V_sim s' \<and> V_sim s' \<le> max_voltage"
  proof cases
    case charging
    then have "0 < deltaV_of ?p (V_sim s)"
      by (simp add: deltaV_of_pos)
    moreover have "s' = s\<lparr>V_sim := min (V_sim s + deltaV_of ?p (V_sim s)) (V_target s),
                          I_sim := 0\<rparr>"
      using charging assms(2) charge_update_charging [of s] by simp
    ultimately show ?thesis
      using assms(1) charging by (simp add: voltage_inv_def min_def)
  next
    case discharging
    then have neg: "deltaV_of ?p (V_sim s) < 0"
      by (simp add: deltaV_of_neg)
    have "V_sim s \<noteq> 0"
      using discharging assms(2) charge_update_zero_voltage [of s] by auto
    then have "s' = s\<lparr>V_sim := max (V_sim s + deltaV_of ?p (V_sim s)) 0,
                       I_sim := ?p / V_sim s\<rparr>"
      using discharging assms(2) charge_update_discharging [of s] by simp
    then show ?thesis
      using assms(1) neg by (simp add: voltage_inv_def max_def)
  next
    case idle
    then have "charge_update s = Inr s"
      by (rule charge_update_idle)
    with assms(2) have "s' = s"
      by simp
    then show ?thesis
      using assms(1) by (simp add: voltage_inv_def)
  qed
  then show "0 \<le> V_sim s'" and "V_sim s' \<le> max_voltage"
    by simp_all
qed

lemma solar_update_solar_inv:
  assumes "solar_inv s" and "solar_update s = Inr s'"
  shows "solar_inv s'"
proof -
  have isp: "0 \<le> init_solar_power s" "init_solar_power s \<le> solar_power_max"
    and sp: "0 \<le> Solar_power s" "Solar_power s \<le> init_solar_power s"
    using assms(1) by (simp_all add: solar_inv_def)
  have keep: "init_solar_power s' = init_solar_power s"
    using assms(2) by (rule solar_update_frame)
  have "0 \<le> Solar_power s' \<and> Solar_power s' \<le> init_solar_power s"
    using assms(2) isp sp eclipse_entry_power_bounds [OF isp(1)]
      eclipse_exit_power_bounds [OF isp(1)] Eclipse_write_Solar_power [of s "PInt 0"]
    by (auto simp add: solar_update_def split: if_splits option.splits sum.splits)
  with isp keep show ?thesis
    by (simp add: solar_inv_def)
qed

lemma solar_inv_cong:
  assumes "solar_inv s" and "init_solar_power s' = init_solar_power s"
    and "Solar_power s' = Solar_power s"
  shows "solar_inv s'"
  using assms by (simp add: solar_inv_def)

lemma voltage_inv_cong:
  assumes "voltage_inv s" and "V_sim s' = V_sim s" and "V_target s' = V_target s"
  shows "voltage_inv s'"
  using assms by (simp add: voltage_inv_def)

text \<open>The instance a loop iteration leaves behind, whether or not it raised.\<close>

lemma tick_voltage_inv:
  assumes "voltage_inv s"
  shows "case tick s of Inl (e, s') \<Rightarrow> voltage_inv s' | Inr s' \<Rightarrow> voltage_inv s'"
proof (cases "charge_update s")
  case (Inl e)
  then show ?thesis
    using assms by (simp add: tick_def)
next
  case (Inr s1)
  have "V_target s1 = V_target s"
    using Inr by (rule charge_update_frame)
  with charge_update_V_sim_range [OF assms Inr] assms have inv1: "voltage_inv s1"
    by (simp add: voltage_inv_def)
  show ?thesis
  proof (cases "solar_update s1")
    case (Inl e)
    with Inr inv1 show ?thesis
      by (simp add: tick_def)
  next
    case (Inr s2)
    have "V_sim s2 = V_sim s1" and "V_target s2 = V_target s1"
      using Inr by (rule solar_update_frame)+
    with inv1 have "voltage_inv (s2\<lparr>sim_time := sim_time s2 + sim_interval\<rparr>)"
      by (simp add: voltage_inv_def)
    with Inr \<open>charge_update s = Inr s1\<close> show ?thesis
      by (simp add: tick_def)
  qed
qed

lemma tick_solar_inv:
  assumes "solar_inv s"
  shows "case tick s of Inl (e, s') \<Rightarrow> solar_inv s' | Inr s' \<Rightarrow> solar_inv s'"
proof (cases "charge_update s")
  case (Inl e)
  then show ?thesis
    using assms by (simp add: tick_def)
next
  case (Inr s1)
  have "init_solar_power s1 = init_solar_power s" and "Solar_power s1 = Solar_power s"
    using Inr by (rule charge_update_frame)+
  with assms have inv1: "solar_inv s1"
    by (simp add: solar_inv_def)
  show ?thesis
  proof (cases "solar_update s1")
    case (Inl e)
    with Inr inv1 show ?thesis
      by (simp add: tick_def)
  next
    case (Inr s2)
    with inv1 have "solar_inv s2"
      by (rule solar_update_solar_inv)
    then have "solar_inv (s2\<lparr>sim_time := sim_time s2 + sim_interval\<rparr>)"
      by (simp add: solar_inv_def)
    with Inr \<open>charge_update s = Inr s1\<close> show ?thesis
      by (simp add: tick_def)
  qed
qed

lemma solar_update_solar_range:
  assumes "solar_range s" and "solar_update s = Inr s'"
  shows "solar_range s'"
proof -
  have isp: "0 \<le> init_solar_power s" "init_solar_power s \<le> solar_power_max"
    and sp: "0 \<le> Solar_power s" "Solar_power s \<le> solar_power_max"
    using assms(1) by (simp_all add: solar_range_def)
  have keep: "init_solar_power s' = init_solar_power s"
    using assms(2) by (rule solar_update_frame)
  have "Solar_power s' = Solar_power s
      \<or> (0 \<le> Solar_power s' \<and> Solar_power s' \<le> init_solar_power s)"
    using assms(2) isp eclipse_entry_power_bounds [OF isp(1)]
      eclipse_exit_power_bounds [OF isp(1)] Eclipse_write_Solar_power [of s "PInt 0"]
    by (auto simp add: solar_update_def split: if_splits option.splits sum.splits)
  with isp sp keep show ?thesis
    by (auto simp add: solar_range_def)
qed

lemma tick_solar_range:
  assumes "solar_range s"
  shows "case tick s of Inl (e, s') \<Rightarrow> solar_range s' | Inr s' \<Rightarrow> solar_range s'"
proof (cases "charge_update s")
  case (Inl e)
  then show ?thesis
    using assms by (simp add: tick_def)
next
  case (Inr s1)
  have "init_solar_power s1 = init_solar_power s" and "Solar_power s1 = Solar_power s"
    using Inr by (rule charge_update_frame)+
  with assms have inv1: "solar_range s1"
    by (simp add: solar_range_def)
  show ?thesis
  proof (cases "solar_update s1")
    case (Inl e)
    with Inr inv1 show ?thesis
      by (simp add: tick_def)
  next
    case (Inr s2)
    with inv1 have "solar_range s2"
      by (rule solar_update_solar_range)
    then have "solar_range (s2\<lparr>sim_time := sim_time s2 + sim_interval\<rparr>)"
      by (simp add: solar_range_def)
    with Inr \<open>charge_update s = Inr s1\<close> show ?thesis
      by (simp add: tick_def)
  qed
qed

lemma step_Tick_voltage_inv:
  assumes "voltage_inv s"
  shows "voltage_inv (step s Tick)"
  using tick_voltage_inv [OF assms] assms
  by (auto simp add: voltage_inv_def split: sum.splits prod.splits)

lemma step_Tick_solar_inv:
  assumes "solar_inv s"
  shows "solar_inv (step s Tick)"
  using tick_solar_inv [OF assms] assms
  by (auto simp add: solar_inv_def split: sum.splits prod.splits)

lemma step_Tick_solar_range:
  assumes "solar_range s"
  shows "solar_range (step s Tick)"
  using tick_solar_range [OF assms] assms
  by (auto simp add: solar_range_def split: sum.splits prod.splits)

lemma step_voltage_inv:
  assumes "voltage_inv s" and "V_sim_write_ok e"
  shows "voltage_inv (step s e)"
proof (cases e)
  case Tick
  with step_Tick_voltage_inv [OF assms(1)] show ?thesis
    by simp
next
  case (Put_V_target v)
  with assms max_voltage_pos show ?thesis
    by (simp add: V_target_write_eq voltage_inv_def)
next
  case (Put_Eclipse v)
  with assms show ?thesis
    by (simp add: voltage_inv_def Eclipse_write_frame)
qed (use assms in \<open>simp_all add: voltage_inv_def\<close>)

lemma step_solar_range:
  assumes "solar_range s" and "Solar_power_write_ok e"
  shows "solar_range (step s e)"
proof (cases e)
  case Tick
  with step_Tick_solar_range [OF assms(1)] show ?thesis
    by simp
next
  case (Put_V_target v)
  with assms show ?thesis
    by (simp add: V_target_write_eq solar_range_def)
next
  case (Put_Eclipse v)
  with assms Eclipse_write_Solar_power [of s v] show ?thesis
    by (auto simp add: solar_range_def Eclipse_write_frame)
qed (use assms in \<open>simp_all add: solar_range_def\<close>)

lemma run_voltage_inv:
  "voltage_inv s \<Longrightarrow> list_all V_sim_write_ok es \<Longrightarrow> voltage_inv (run s es)"
  by (induction es arbitrary: s) (simp_all add: step_voltage_inv)

lemma run_solar_range:
  "solar_range s \<Longrightarrow> list_all Solar_power_write_ok es \<Longrightarrow> solar_range (run s es)"
  by (induction es arbitrary: s) (simp_all add: step_solar_range)

lemma tick_init_solar_power:
  "case tick s of Inl (e, s') \<Rightarrow> init_solar_power s' = init_solar_power s
   | Inr s' \<Rightarrow> init_solar_power s' = init_solar_power s"
proof (cases "charge_update s")
  case (Inl e)
  then show ?thesis
    by (simp add: tick_def)
next
  case (Inr s1)
  have k1: "init_solar_power s1 = init_solar_power s"
    using Inr by (rule charge_update_frame)
  show ?thesis
  proof (cases "solar_update s1")
    case (Inl e)
    with Inr k1 show ?thesis
      by (simp add: tick_def)
  next
    case (Inr s2)
    have "init_solar_power s2 = init_solar_power s1"
      using Inr by (rule solar_update_frame)
    with k1 Inr \<open>charge_update s = Inr s1\<close> show ?thesis
      by (simp add: tick_def)
  qed
qed

lemma step_init_solar_power: "init_solar_power (step s e) = init_solar_power s"
proof (cases e)
  case Tick
  with tick_init_solar_power [of s] show ?thesis
    by (auto split: sum.splits prod.splits)
next
  case (Put_V_target v)
  then show ?thesis
    by (simp add: V_target_write_eq)
next
  case (Put_Eclipse v)
  then show ?thesis
    by (simp add: Eclipse_write_frame)
qed simp_all

lemma run_init_solar_power: "init_solar_power (run s es) = init_solar_power s"
  by (induction es arbitrary: s) (simp_all add: step_init_solar_power)

lemma main_Serving:
  assumes "main d = Serving s0"
  shows "s0 = init d" and "voltage_inv s0" and "solar_inv s0"
    and "init_solar_power s0 = d_Solar_power d" and "loop_exc s0 = None"
proof -
  have ok: "initOK (init d)" and s0: "s0 = init d"
    using assms by (auto simp add: main_def Let_def split: if_splits)
  show "s0 = init d"
    by (rule s0)
  have r: "0 \<le> d_V_sim d \<and> d_V_sim d \<le> max_voltage
           \<and> 0 \<le> d_Solar_power d \<and> d_Solar_power d \<le> solar_power_max
           \<and> 0 \<le> d_V_target d \<and> d_V_target d \<le> max_voltage"
    using ok by (auto simp add: init_def Let_def split: if_splits)
  show "voltage_inv s0"
    using r by (simp add: s0 voltage_inv_def init_def Let_def)
  show "solar_inv s0"
    using r by (simp add: s0 solar_inv_def init_def Let_def)
  show "init_solar_power s0 = d_Solar_power d"
    by (simp add: s0 init_def Let_def)
  show "loop_exc s0 = None"
    by (simp add: s0 init_def Let_def)
qed

lemma main_source_defaults: "main source_defaults = Serving (init source_defaults)"
  by (simp add: main_def init_source_defaults)

section \<open>The simulated voltage stays in its range\<close>

lemma max_voltage_le: "max_voltage \<le> 64"
proof -
  have "ln (150 / 80 + 1 :: real) \<le> (150 / 80 + 1) - 1"
    by (rule ln_le_minus_one) simp
  then show ?thesis
    by (simp add: max_voltage_def battery_capacity_def model_constant_def
        battery_nominal_voltage_def)
qed

lemma step_Tick_V_sim_charging:
  assumes "Solar_power s - load_power_const > 0" and "V_sim s < V_target s"
    and "0 \<le> V_sim s"
  shows "0 \<le> V_sim (step s Tick)" and "V_sim (step s Tick) \<le> V_target s"
proof -
  let ?p = "Solar_power s - load_power_const"
  let ?s1 = "s\<lparr>V_sim := min (V_sim s + deltaV_of ?p (V_sim s)) (V_target s), I_sim := 0\<rparr>"
  have cu: "charge_update s = Inr ?s1"
    using assms(1,2) by (rule charge_update_charging)
  have pos: "0 < deltaV_of ?p (V_sim s)"
    using assms(1) by (rule deltaV_of_pos)
  have v1: "0 \<le> V_sim ?s1 \<and> V_sim ?s1 \<le> V_target s"
    using pos assms by (simp add: min_def)
  have "V_sim (step s Tick) = V_sim s \<or> V_sim (step s Tick) = V_sim ?s1"
  proof (cases "solar_update ?s1")
    case (Inl e)
    then show ?thesis
      by (simp add: tick_def cu)
  next
    case (Inr s2)
    have "V_sim s2 = V_sim ?s1"
      using Inr by (rule solar_update_frame)
    with Inr show ?thesis
      by (simp add: tick_def cu)
  qed
  with v1 assms show "0 \<le> V_sim (step s Tick)" and "V_sim (step s Tick) \<le> V_target s"
    by auto
qed

lemma step_Tick_V_sim_discharging:
  assumes "Solar_power s - load_power_const < 0" and "0 \<le> V_sim s"
  shows "0 \<le> V_sim (step s Tick)" and "V_sim (step s Tick) \<le> V_sim s"
proof -
  let ?p = "Solar_power s - load_power_const"
  have neg: "deltaV_of ?p (V_sim s) < 0"
    using assms(1) by (rule deltaV_of_neg)
  have "V_sim (step s Tick) = V_sim s
        \<or> V_sim (step s Tick) = max (V_sim s + deltaV_of ?p (V_sim s)) 0"
  proof (cases "V_sim s = 0")
    case True
    with assms(1) have "charge_update s = Inl ZeroDivisionError"
      by (simp add: charge_update_zero_voltage)
    then show ?thesis
      by (simp add: tick_def)
  next
    case False
    let ?s1 = "s\<lparr>V_sim := max (V_sim s + deltaV_of ?p (V_sim s)) 0, I_sim := ?p / V_sim s\<rparr>"
    have cu: "charge_update s = Inr ?s1"
      using assms(1) False by (rule charge_update_discharging)
    show ?thesis
    proof (cases "solar_update ?s1")
      case (Inl e)
      then show ?thesis
        by (simp add: tick_def cu)
    next
      case (Inr s2)
      have "V_sim s2 = V_sim ?s1"
        using Inr by (rule solar_update_frame)
      with Inr show ?thesis
        by (simp add: tick_def cu)
    qed
  qed
  with neg assms(2) show "0 \<le> V_sim (step s Tick)" and "V_sim (step s Tick) \<le> V_sim s"
    by (auto simp add: max_def split: if_splits)
qed

lemma solar_inv_range: "solar_inv s \<Longrightarrow> solar_range s"
  by (simp add: solar_inv_def solar_range_def)

lemma published_init_solar_power:
  assumes "published (main d) es = Some s"
  shows "init_solar_power s = d_Solar_power d"
    and "0 \<le> d_Solar_power d" and "d_Solar_power d \<le> solar_power_max"
proof -
  obtain s0 where m: "main d = Serving s0" and s: "s = run s0 es"
    using assms by (cases "main d") auto
  show "init_solar_power s = d_Solar_power d"
    unfolding s using main_Serving(4) [OF m] by (simp add: run_init_solar_power)
  show "0 \<le> d_Solar_power d" and "d_Solar_power d \<le> solar_power_max"
    using main_Serving(3,4) [OF m] by (simp_all add: solar_inv_def)
qed

lemma published_voltage_inv:
  assumes "published (main d) es = Some s" and "list_all V_sim_write_ok es"
  shows "voltage_inv s"
proof -
  obtain s0 where m: "main d = Serving s0" and s: "s = run s0 es"
    using assms(1) by (cases "main d") auto
  show ?thesis
    unfolding s using main_Serving(2) [OF m] assms(2) by (rule run_voltage_inv)
qed

lemma published_solar_range:
  assumes "published (main d) es = Some s" and "list_all Solar_power_write_ok es"
  shows "solar_range s"
proof -
  obtain s0 where m: "main d = Serving s0" and s: "s = run s0 es"
    using assms(1) by (cases "main d") auto
  have "solar_range s0"
    using main_Serving(3) [OF m] by (rule solar_inv_range)
  then show ?thesis
    unfolding s using assms(2) by (rule run_solar_range)
qed

lemma step_Tick_idle:
  assumes "loop_exc s = None" and "Eclipse s = 0"
    and "\<not> (Solar_power s - load_power_const > 0 \<and> V_sim s < V_target s)"
    and "\<not> Solar_power s - load_power_const < 0"
  shows "step s Tick = s\<lparr>sim_time := sim_time s + sim_interval\<rparr>"
proof -
  have "charge_update s = Inr s"
    using assms(3,4) by (rule charge_update_idle)
  moreover have "solar_update s = Inr s"
    using assms(2) by (simp add: solar_update_def)
  ultimately show ?thesis
    using assms(1) by (simp add: tick_def)
qed

lemma step_Tick_Solar_power_no_eclipse:
  assumes "Eclipse s = 0"
  shows "Solar_power (step s Tick) = Solar_power s"
proof (cases "charge_update s")
  case (Inl e)
  then show ?thesis
    by (simp add: tick_def)
next
  case (Inr s1)
  have e1: "Eclipse s1 = 0" and sp1: "Solar_power s1 = Solar_power s"
    using Inr assms charge_update_frame [OF Inr] by simp_all
  have "solar_update s1 = Inr s1"
    using e1 by (simp add: solar_update_def)
  with Inr sp1 show ?thesis
    by (simp add: tick_def)
qed

text \<open>
  C3, as the code has it. From an instance whose simulated and target voltages lie in
  \<open>[0, max_voltage]\<close>, one loop iteration leaves the simulated voltage in
  \<open>[0, V_target]\<close> when it charges and at or above \<open>0\<close> when it discharges, and in
  every case inside \<open>[0, max_voltage]\<close>. Consequently the simulated voltage that is
  published after any sequence of loop iterations and client writes lies in
  \<open>[0, max_voltage]\<close>, provided every value a client writes directly to the simulated
  voltage lies in that range.
\<close>

theorem simulated_voltage_in_range:
  "(0 \<le> V_sim self \<and> V_sim self \<le> max_voltage
      \<and> 0 \<le> V_target self \<and> V_target self \<le> max_voltage \<longrightarrow>
      (Solar_power self - load_power_const > 0 \<and> V_sim self < V_target self \<longrightarrow>
         0 \<le> V_sim (step self Tick) \<and> V_sim (step self Tick) \<le> V_target self)
      \<and> (Solar_power self - load_power_const < 0 \<longrightarrow> 0 \<le> V_sim (step self Tick))
      \<and> 0 \<le> V_sim (step self Tick) \<and> V_sim (step self Tick) \<le> max_voltage)
   \<and> (published (main d) es = Some s \<and> list_all V_sim_write_ok es \<longrightarrow>
        0 \<le> V_sim s \<and> V_sim s \<le> max_voltage)"
proof -
  have single: "(Solar_power self - load_power_const > 0 \<and> V_sim self < V_target self \<longrightarrow>
         0 \<le> V_sim (step self Tick) \<and> V_sim (step self Tick) \<le> V_target self)
      \<and> (Solar_power self - load_power_const < 0 \<longrightarrow> 0 \<le> V_sim (step self Tick))
      \<and> 0 \<le> V_sim (step self Tick) \<and> V_sim (step self Tick) \<le> max_voltage"
    if valid: "0 \<le> V_sim self \<and> V_sim self \<le> max_voltage
      \<and> 0 \<le> V_target self \<and> V_target self \<le> max_voltage"
  proof -
    have "voltage_inv self"
      using valid by (simp add: voltage_inv_def)
    then have "voltage_inv (step self Tick)"
      by (rule step_Tick_voltage_inv)
    then have "0 \<le> V_sim (step self Tick) \<and> V_sim (step self Tick) \<le> max_voltage"
      by (simp add: voltage_inv_def)
    moreover have "0 \<le> V_sim (step self Tick) \<and> V_sim (step self Tick) \<le> V_target self"
      if "Solar_power self - load_power_const > 0 \<and> V_sim self < V_target self"
      using that valid step_Tick_V_sim_charging [of self] by simp
    ultimately show ?thesis
      by blast
  qed
  have "0 \<le> V_sim s \<and> V_sim s \<le> max_voltage"
    if "published (main d) es = Some s \<and> list_all V_sim_write_ok es"
    using that published_voltage_inv [of d es s] by (simp add: voltage_inv_def)
  with single show ?thesis
    by blast
qed

theorem simulated_voltage_in_range_witness:
  "0 \<le> V_sim (init source_defaults) \<and> V_sim (init source_defaults) \<le> max_voltage
   \<and> 0 \<le> V_target (init source_defaults) \<and> V_target (init source_defaults) \<le> max_voltage
   \<and> Solar_power (init source_defaults) - load_power_const > 0
   \<and> V_sim (init source_defaults) < V_target (init source_defaults)
   \<and> 0 \<le> V_sim (step (init source_defaults) Tick)
   \<and> V_sim (step (init source_defaults) Tick) \<le> V_target (init source_defaults)
   \<and> Solar_power ((init source_defaults)\<lparr>Solar_power := 0\<rparr>) - load_power_const < 0
   \<and> 0 \<le> V_sim (step ((init source_defaults)\<lparr>Solar_power := 0\<rparr>) Tick)
   \<and> published (main source_defaults) [Tick, Put_V_sim 20, Put_V_target 50, Tick]
        = Some (run (init source_defaults) [Tick, Put_V_sim 20, Put_V_target 50, Tick])
   \<and> list_all V_sim_write_ok [Tick, Put_V_sim 20, Put_V_target 50, Tick]
   \<and> 0 \<le> V_sim (run (init source_defaults) [Tick, Put_V_sim 20, Put_V_target 50, Tick])
   \<and> V_sim (run (init source_defaults) [Tick, Put_V_sim 20, Put_V_target 50, Tick])
        \<le> max_voltage"
proof -
  let ?s1 = "init source_defaults"
  let ?s2 = "(init source_defaults)\<lparr>Solar_power := 0\<rparr>"
  let ?es = "[Tick, Put_V_sim 20, Put_V_target 50, Tick]"
  have ok: "list_all V_sim_write_ok ?es"
    using max_voltage_ge_nominal by simp
  have valid1: "0 \<le> V_sim ?s1 \<and> V_sim ?s1 \<le> max_voltage
      \<and> 0 \<le> V_target ?s1 \<and> V_target ?s1 \<le> max_voltage"
    using max_voltage_ge_nominal by (simp add: init_source_defaults)
  have charging: "Solar_power ?s1 - load_power_const > 0 \<and> V_sim ?s1 < V_target ?s1"
    by (simp add: init_source_defaults load_power_const_def)
  have valid2: "0 \<le> V_sim ?s2 \<and> V_sim ?s2 \<le> max_voltage
      \<and> 0 \<le> V_target ?s2 \<and> V_target ?s2 \<le> max_voltage"
    using max_voltage_ge_nominal by (simp add: init_source_defaults)
  have discharging: "Solar_power ?s2 - load_power_const < 0"
    by (simp add: init_source_defaults load_power_const_def)
  have pub: "published (main source_defaults) ?es = Some (run ?s1 ?es)"
    by (simp only: main_source_defaults published.simps)
  from simulated_voltage_in_range [of ?s1 source_defaults ?es "run ?s1 ?es"] valid1 charging
    pub ok
  have c1: "0 \<le> V_sim (step ?s1 Tick) \<and> V_sim (step ?s1 Tick) \<le> V_target ?s1
            \<and> 0 \<le> V_sim (run ?s1 ?es) \<and> V_sim (run ?s1 ?es) \<le> max_voltage"
    by blast
  from simulated_voltage_in_range [of ?s2 source_defaults ?es "run ?s1 ?es"] valid2 discharging
  have c2: "0 \<le> V_sim (step ?s2 Tick)"
    by blast
  from valid1 charging discharging pub ok c1 c2 show ?thesis
    by blast
qed

text \<open>
  C3 does not hold for the published voltage without that proviso: the simulated
  voltage is a writable PV with no putter, so a client can store 100 V, above
  \<open>max_voltage\<close>; the value is published and the next iteration leaves it in place.
\<close>

theorem client_write_leaves_voltage_range:
  "published (main source_defaults) [Put_V_sim 100, Tick]
     = Some (run (init source_defaults) [Put_V_sim 100, Tick])
   \<and> V_sim (run (init source_defaults) [Put_V_sim 100]) = 100
   \<and> V_sim (run (init source_defaults) [Put_V_sim 100, Tick]) = 100
   \<and> max_voltage < 100"
proof -
  define s1 where "s1 = (init source_defaults)\<lparr>V_sim := 100\<rparr>"
  have f: "loop_exc s1 = None" "Eclipse s1 = 0"
    "\<not> (Solar_power s1 - load_power_const > 0 \<and> V_sim s1 < V_target s1)"
    "\<not> Solar_power s1 - load_power_const < 0"
    by (simp_all add: s1_def init_source_defaults load_power_const_def)
  have "step s1 Tick = s1\<lparr>sim_time := sim_time s1 + sim_interval\<rparr>"
    using f by (rule step_Tick_idle)
  then have "V_sim (step s1 Tick) = 100"
    by (simp add: s1_def)
  moreover have "run (init source_defaults) [Put_V_sim 100, Tick] = step s1 Tick"
    by (simp only: run.simps step.simps s1_def)
  ultimately have after: "V_sim (run (init source_defaults) [Put_V_sim 100, Tick]) = 100"
    by (simp only:)
  have stored: "V_sim (run (init source_defaults) [Put_V_sim 100]) = 100"
    by simp
  have pub: "published (main source_defaults) [Put_V_sim 100, Tick]
     = Some (run (init source_defaults) [Put_V_sim 100, Tick])"
    by (simp only: main_source_defaults published.simps)
  have "max_voltage < 100"
    using max_voltage_le by linarith
  with pub stored after show ?thesis
    by (simp only: simp_thms)
qed

section \<open>The solar power during an eclipse\<close>

lemma solar_update_entry:
  assumes "Eclipse s = 1" and "eclipse_begin s = Some b"
    and "py_div (sim_time s - b) (eclipse_half_duration s) = Inr phase"
    and "0 < phase" and "phase \<le> 1"
  shows "solar_update s =
           Inr (s\<lparr>Solar_power := eclipse_entry_power (init_solar_power s) phase\<rparr>)"
  using assms by (simp add: solar_update_def)

lemma solar_update_exit:
  assumes "Eclipse s = 1" and "eclipse_begin s = Some b"
    and "py_div (sim_time s - b) (eclipse_half_duration s) = Inr phase"
    and "1 < phase" and "phase \<le> 2"
  shows "solar_update s =
           Inr (s\<lparr>Solar_power := eclipse_exit_power (init_solar_power s) phase\<rparr>)"
  using assms by (simp add: solar_update_def)

lemma solar_update_early:
  assumes "Eclipse s = 1" and "eclipse_begin s = Some b"
    and "py_div (sim_time s - b) (eclipse_half_duration s) = Inr phase"
    and "phase \<le> 0"
  shows "solar_update s = Inr s"
  using assms by (simp add: solar_update_def)

text \<open>
  C9, as the code has it. During an eclipse the loop writes \<open>init_solar_power * cos (phase * pi / 2)\<close> for a
  phase in \<open>(0, 1]\<close> and \<open>- init_solar_power * cos (phase * pi / 2)\<close> for a phase in
  \<open>(1, 2]\<close>; for a non-negative \<open>init_solar_power\<close> both values lie in
  \<open>[0, init_solar_power]\<close>, so an iteration during eclipse keeps the solar power in that
  interval. Since startup checks that the default solar power, which
  \<open>init_solar_power\<close> keeps, is in \<open>[0, solar_power_max]\<close>, the published solar power is
  in \<open>[0, solar_power_max]\<close> after any sequence of iterations and client writes,
  provided every value a client writes directly to the solar power lies in that range.
\<close>

theorem eclipse_solar_power_bounded:
  "(Eclipse self = 1 \<and> eclipse_begin self = Some b
      \<and> py_div (sim_time self - b) (eclipse_half_duration self) = Inr phase \<longrightarrow>
      (0 < phase \<and> phase \<le> 1 \<longrightarrow>
         solar_update self =
           Inr (self\<lparr>Solar_power := init_solar_power self * cos (0.5 * pi * phase)\<rparr>))
      \<and> (1 < phase \<and> phase \<le> 2 \<longrightarrow>
         solar_update self =
           Inr (self\<lparr>Solar_power := - init_solar_power self * cos (0.5 * pi * phase)\<rparr>)))
   \<and> (0 \<le> isp \<and> 0 < phase \<and> phase \<le> 1 \<longrightarrow>
        0 \<le> isp * cos (0.5 * pi * phase) \<and> isp * cos (0.5 * pi * phase) \<le> isp)
   \<and> (0 \<le> isp \<and> 1 < phase \<and> phase \<le> 2 \<longrightarrow>
        0 \<le> - isp * cos (0.5 * pi * phase) \<and> - isp * cos (0.5 * pi * phase) \<le> isp)
   \<and> (Eclipse self = 1 \<and> 0 \<le> init_solar_power self
        \<and> init_solar_power self \<le> solar_power_max
        \<and> 0 \<le> Solar_power self \<and> Solar_power self \<le> init_solar_power self \<longrightarrow>
        0 \<le> Solar_power (step self Tick)
        \<and> Solar_power (step self Tick) \<le> init_solar_power self)
   \<and> (published (main d) es = Some s \<longrightarrow>
        0 \<le> d_Solar_power d \<and> d_Solar_power d \<le> solar_power_max
        \<and> init_solar_power s = d_Solar_power d)
   \<and> (published (main d) es = Some s \<and> list_all Solar_power_write_ok es \<longrightarrow>
        0 \<le> Solar_power s \<and> Solar_power s \<le> solar_power_max)"
proof -
  have written: "(0 < phase \<and> phase \<le> 1 \<longrightarrow>
         solar_update self =
           Inr (self\<lparr>Solar_power := init_solar_power self * cos (0.5 * pi * phase)\<rparr>))
      \<and> (1 < phase \<and> phase \<le> 2 \<longrightarrow>
         solar_update self =
           Inr (self\<lparr>Solar_power := - init_solar_power self * cos (0.5 * pi * phase)\<rparr>))"
    if "Eclipse self = 1 \<and> eclipse_begin self = Some b
      \<and> py_div (sim_time self - b) (eclipse_half_duration self) = Inr phase"
    using that solar_update_entry [of self b phase] solar_update_exit [of self b phase]
    by (simp add: eclipse_entry_power_def eclipse_exit_power_def)
  have entry: "0 \<le> isp * cos (0.5 * pi * phase) \<and> isp * cos (0.5 * pi * phase) \<le> isp"
    if "0 \<le> isp \<and> 0 < phase \<and> phase \<le> 1"
    using that eclipse_entry_power_bounds [of isp phase]
    by (simp add: eclipse_entry_power_def)
  have exit: "0 \<le> - isp * cos (0.5 * pi * phase) \<and> - isp * cos (0.5 * pi * phase) \<le> isp"
    if "0 \<le> isp \<and> 1 < phase \<and> phase \<le> 2"
    using that eclipse_exit_power_bounds [of isp phase]
    by (simp add: eclipse_exit_power_def)
  have one_tick: "0 \<le> Solar_power (step self Tick)
        \<and> Solar_power (step self Tick) \<le> init_solar_power self"
    if "Eclipse self = 1 \<and> 0 \<le> init_solar_power self
        \<and> init_solar_power self \<le> solar_power_max
        \<and> 0 \<le> Solar_power self \<and> Solar_power self \<le> init_solar_power self"
  proof -
    have "solar_inv self"
      using that by (simp add: solar_inv_def)
    then have "solar_inv (step self Tick)"
      by (rule step_Tick_solar_inv)
    then have "0 \<le> Solar_power (step self Tick)
        \<and> Solar_power (step self Tick) \<le> init_solar_power (step self Tick)"
      unfolding solar_inv_def by blast
    then show ?thesis
      unfolding step_init_solar_power .
  qed
  have startup: "0 \<le> d_Solar_power d \<and> d_Solar_power d \<le> solar_power_max
        \<and> init_solar_power s = d_Solar_power d"
    if "published (main d) es = Some s"
    using published_init_solar_power [OF that] by simp
  have all_runs: "0 \<le> Solar_power s \<and> Solar_power s \<le> solar_power_max"
    if "published (main d) es = Some s \<and> list_all Solar_power_write_ok es"
    using that published_solar_range [of d es s] by (simp add: solar_range_def)
  from written entry exit one_tick startup all_runs show ?thesis
    by blast
qed

theorem eclipse_solar_power_bounded_witness:
  "Eclipse ((init source_defaults)\<lparr>sim_time := 1800, eclipse_begin := Some 0, Eclipse := 1\<rparr>) = 1
   \<and> py_div (1800 - 0) 3600 = Inr (1 / 2) \<and> (0::real) < 1 / 2 \<and> (1 / 2 :: real) \<le> 1
   \<and> solar_update ((init source_defaults)\<lparr>sim_time := 1800, eclipse_begin := Some 0,
                                          Eclipse := 1\<rparr>)
       = Inr ((init source_defaults)\<lparr>sim_time := 1800, eclipse_begin := Some 0, Eclipse := 1,
                                    Solar_power := 110 * cos (0.5 * pi * (1 / 2))\<rparr>)
   \<and> 0 \<le> 110 * cos (0.5 * pi * (1 / 2)) \<and> 110 * cos (0.5 * pi * (1 / 2)) \<le> (110::real)
   \<and> (1::real) < 3 / 2 \<and> (3 / 2 :: real) \<le> 2
   \<and> 0 \<le> - 110 * cos (0.5 * pi * (3 / 2)) \<and> - 110 * cos (0.5 * pi * (3 / 2)) \<le> (110::real)
   \<and> 0 \<le> Solar_power (step ((init source_defaults)\<lparr>sim_time := 1800,
                 eclipse_begin := Some 0, Eclipse := 1\<rparr>) Tick)
   \<and> Solar_power (step ((init source_defaults)\<lparr>sim_time := 1800,
                 eclipse_begin := Some 0, Eclipse := 1\<rparr>) Tick) \<le> 110
   \<and> published (main source_defaults) [Put_Eclipse (PInt 1), Tick, Put_Solar_power 120, Tick]
        = Some (run (init source_defaults)
                  [Put_Eclipse (PInt 1), Tick, Put_Solar_power 120, Tick])
   \<and> list_all Solar_power_write_ok [Put_Eclipse (PInt 1), Tick, Put_Solar_power 120, Tick]
   \<and> init_solar_power (run (init source_defaults)
          [Put_Eclipse (PInt 1), Tick, Put_Solar_power 120, Tick])
        = d_Solar_power source_defaults
   \<and> 0 \<le> Solar_power (run (init source_defaults)
              [Put_Eclipse (PInt 1), Tick, Put_Solar_power 120, Tick])
   \<and> Solar_power (run (init source_defaults)
          [Put_Eclipse (PInt 1), Tick, Put_Solar_power 120, Tick])
        \<le> solar_power_max"
proof -
  let ?s = "(init source_defaults)\<lparr>sim_time := 1800, eclipse_begin := Some 0, Eclipse := 1\<rparr>"
  let ?es = "[Put_Eclipse (PInt 1), Tick, Put_Solar_power 120, Tick]"
  have ok: "list_all Solar_power_write_ok ?es"
    by (simp add: solar_power_max_def)
  have h1: "Eclipse ?s = 1 \<and> eclipse_begin ?s = Some 0
      \<and> py_div (sim_time ?s - 0) (eclipse_half_duration ?s) = Inr (1 / 2)"
    by (simp add: init_source_defaults py_div_def)
  have h2: "(0::real) \<le> 110 \<and> (0::real) < 1 / 2 \<and> (1 / 2 :: real) \<le> 1"
    by simp
  have h3: "(0::real) \<le> 110 \<and> (1::real) < 3 / 2 \<and> (3 / 2 :: real) \<le> 2"
    by simp
  have h4: "Eclipse ?s = 1 \<and> 0 \<le> init_solar_power ?s
        \<and> init_solar_power ?s \<le> solar_power_max
        \<and> 0 \<le> Solar_power ?s \<and> Solar_power ?s \<le> init_solar_power ?s"
    by (simp add: init_source_defaults solar_power_max_def)
  have h5: "published (main source_defaults) ?es = Some (run (init source_defaults) ?es)"
    by (simp only: main_source_defaults published.simps)
  have isp: "init_solar_power ?s = 110"
    by (simp add: init_source_defaults)
  have py: "py_div (1800 - 0) 3600 = Inr (1 / 2)"
    by (simp add: py_div_def)
  note t1 = eclipse_solar_power_bounded
    [of ?s 0 "1 / 2" 110 source_defaults ?es "run (init source_defaults) ?es"]
  note t2 = eclipse_solar_power_bounded
    [of ?s 0 "3 / 2" 110 source_defaults ?es "run (init source_defaults) ?es"]
  from t1 h1 h2 have c1: "solar_update ?s =
      Inr (?s\<lparr>Solar_power := init_solar_power ?s * cos (0.5 * pi * (1 / 2))\<rparr>)"
    by blast
  from t1 h2 have c2: "0 \<le> 110 * cos (0.5 * pi * (1 / 2))
      \<and> 110 * cos (0.5 * pi * (1 / 2)) \<le> (110::real)"
    by blast
  from t2 h3 have c3: "0 \<le> - 110 * cos (0.5 * pi * (3 / 2))
      \<and> - 110 * cos (0.5 * pi * (3 / 2)) \<le> (110::real)"
    by blast
  from t1 h4 have c4: "0 \<le> Solar_power (step ?s Tick)
      \<and> Solar_power (step ?s Tick) \<le> init_solar_power ?s"
    by blast
  from t1 h5 ok have c5: "0 \<le> Solar_power (run (init source_defaults) ?es)
      \<and> Solar_power (run (init source_defaults) ?es) \<le> solar_power_max"
    by blast
  from t1 h5 have c6: "init_solar_power (run (init source_defaults) ?es)
      = d_Solar_power source_defaults"
    by blast
  from h1 have e: "Eclipse ?s = 1"
    by blast
  from e py h2 h3 c1 [unfolded isp] c2 c3 c4 [unfolded isp] h5 ok c5 c6 show ?thesis
    by blast
qed

text \<open>
  C9 does not hold for the published solar power without that proviso: the solar power
  is a writable PV with no putter, so a client can store 500 W, above
  \<open>solar_power_max\<close>; the value is published and the next iteration, outside an
  eclipse, leaves it in place.
\<close>

theorem client_write_leaves_solar_range:
  "published (main source_defaults) [Put_Solar_power 500, Tick]
     = Some (run (init source_defaults) [Put_Solar_power 500, Tick])
   \<and> Solar_power (run (init source_defaults) [Put_Solar_power 500]) = 500
   \<and> Solar_power (run (init source_defaults) [Put_Solar_power 500, Tick]) = 500
   \<and> solar_power_max < 500"
proof -
  define s1 where "s1 = (init source_defaults)\<lparr>Solar_power := 500\<rparr>"
  have "Eclipse s1 = 0"
    by (simp add: s1_def init_source_defaults)
  then have "Solar_power (step s1 Tick) = Solar_power s1"
    by (rule step_Tick_Solar_power_no_eclipse)
  then have "Solar_power (step s1 Tick) = 500"
    by (simp add: s1_def)
  moreover have "run (init source_defaults) [Put_Solar_power 500, Tick] = step s1 Tick"
    by (simp only: run.simps step.simps s1_def)
  ultimately have after:
    "Solar_power (run (init source_defaults) [Put_Solar_power 500, Tick]) = 500"
    by (simp only:)
  have stored: "Solar_power (run (init source_defaults) [Put_Solar_power 500]) = 500"
    by simp
  have pub: "published (main source_defaults) [Put_Solar_power 500, Tick]
     = Some (run (init source_defaults) [Put_Solar_power 500, Tick])"
    by (simp only: main_source_defaults published.simps)
  have "solar_power_max < 500"
    by (simp add: solar_power_max_def)
  with pub stored after show ?thesis
    by (simp only: simp_thms)
qed

section \<open>Startup validation\<close>

lemma init_invalid:
  assumes "d_V_sim d < 0 \<or> d_V_sim d > max_voltage
     \<or> d_Solar_power d < 0 \<or> d_Solar_power d > solar_power_max
     \<or> d_V_target d < 0 \<or> d_V_target d > max_voltage"
  shows "\<not> initOK (init d)"
  using assms by (auto simp add: init_def Let_def)

text \<open>
  C7. When the default simulated voltage, solar power or target voltage is outside its
  validity range (for example a simulated voltage above \<open>max_voltage\<close>), construction
  clears \<open>initOK\<close>, the main program prints the failure and exits with status 1 without
  starting the server: no loop iteration runs and nothing is published.
\<close>

theorem invalid_defaults_abort_startup:
  "d_V_sim d < 0 \<or> d_V_sim d > max_voltage
     \<or> d_Solar_power d < 0 \<or> d_Solar_power d > solar_power_max
     \<or> d_V_target d < 0 \<or> d_V_target d > max_voltage \<longrightarrow>
   initOK (init d) = False
   \<and> main d = Exit 1 [''Initialization failed!'']
   \<and> published (main d) es = None"
proof
  assume "d_V_sim d < 0 \<or> d_V_sim d > max_voltage
     \<or> d_Solar_power d < 0 \<or> d_Solar_power d > solar_power_max
     \<or> d_V_target d < 0 \<or> d_V_target d > max_voltage"
  then have bad: "\<not> initOK (init d)"
    by (rule init_invalid)
  then have "main d = Exit 1 [''Initialization failed!'']"
    by (simp add: main_def Let_def)
  with bad show "initOK (init d) = False
   \<and> main d = Exit 1 [''Initialization failed!'']
   \<and> published (main d) es = None"
    by simp
qed

theorem invalid_defaults_abort_startup_witness:
  "d_V_sim (source_defaults\<lparr>d_V_sim := 100\<rparr>) > max_voltage
   \<and> main (source_defaults\<lparr>d_V_sim := 100\<rparr>) = Exit 1 [''Initialization failed!'']
   \<and> published (main (source_defaults\<lparr>d_V_sim := 100\<rparr>)) [Tick] = None"
proof -
  have h: "d_V_sim (source_defaults\<lparr>d_V_sim := 100\<rparr>) > max_voltage"
    using max_voltage_le by simp
  with invalid_defaults_abort_startup [of "source_defaults\<lparr>d_V_sim := 100\<rparr>" "[Tick]"]
  show ?thesis
    by blast
qed

section \<open>The eclipse formulas at the phase boundaries\<close>

lemma eclipse_entry_power_tendsto:
  "((\<lambda>phase. eclipse_entry_power isp phase) \<longlongrightarrow> isp) (at_right 0)"
proof -
  have "((\<lambda>phase. isp * cos (0.5 * pi * phase)) \<longlongrightarrow> isp * cos (0.5 * pi * 0))
          (at_right 0)"
    by (intro tendsto_intros)
  then show ?thesis
    by (simp add: eclipse_entry_power_def)
qed

text \<open>
  C10. At phase \<open>1\<close> both eclipse formulas evaluate to \<open>0\<close> (the loop then writes \<open>0\<close>),
  the first formula tends to \<open>init_solar_power\<close> as the phase tends to \<open>0\<close> from above,
  and for a phase at or below \<open>0\<close> the loop makes no update.
\<close>

theorem eclipse_formulas_at_boundaries:
  "eclipse_entry_power isp 1 = 0
   \<and> eclipse_exit_power isp 1 = 0
   \<and> ((\<lambda>phase. eclipse_entry_power isp phase) \<longlongrightarrow> isp) (at_right 0)
   \<and> (Eclipse self = 1 \<and> eclipse_begin self = Some b
        \<and> py_div (sim_time self - b) (eclipse_half_duration self) = Inr phase \<longrightarrow>
        (phase = 1 \<longrightarrow> solar_update self = Inr (self\<lparr>Solar_power := 0\<rparr>))
        \<and> (phase \<le> 0 \<longrightarrow> solar_update self = Inr self))"
proof -
  have half: "0.5 * pi * 1 = pi / 2"
    by simp
  have b1: "eclipse_entry_power x 1 = 0" and b2: "eclipse_exit_power x 1 = 0" for x
    unfolding eclipse_entry_power_def eclipse_exit_power_def half by simp_all
  have upd: "(phase = 1 \<longrightarrow> solar_update self = Inr (self\<lparr>Solar_power := 0\<rparr>))
        \<and> (phase \<le> 0 \<longrightarrow> solar_update self = Inr self)"
    if h: "Eclipse self = 1 \<and> eclipse_begin self = Some b
        \<and> py_div (sim_time self - b) (eclipse_half_duration self) = Inr phase"
  proof -
    have "solar_update self = Inr (self\<lparr>Solar_power := 0\<rparr>)" if "phase = 1"
      using h that solar_update_entry [of self b phase] by (simp add: b1)
    moreover have "solar_update self = Inr self" if "phase \<le> 0"
      using h that solar_update_early [of self b phase] by simp
    ultimately show ?thesis
      by blast
  qed
  from b1 b2 eclipse_entry_power_tendsto [of isp] upd show ?thesis
    by blast
qed

theorem eclipse_formulas_at_boundaries_witness:
  "Eclipse ((init source_defaults)\<lparr>eclipse_begin := Some 0, Eclipse := 1\<rparr>) = 1
   \<and> py_div (0 - 0) 3600 = Inr 0 \<and> (0::real) \<le> 0
   \<and> solar_update ((init source_defaults)\<lparr>eclipse_begin := Some 0, Eclipse := 1\<rparr>)
       = Inr ((init source_defaults)\<lparr>eclipse_begin := Some 0, Eclipse := 1\<rparr>)
   \<and> py_div (3600 - 0) 3600 = Inr 1
   \<and> solar_update ((init source_defaults)\<lparr>sim_time := 3600, eclipse_begin := Some 0,
                                          Eclipse := 1\<rparr>)
       = Inr ((init source_defaults)\<lparr>sim_time := 3600, eclipse_begin := Some 0, Eclipse := 1,
                                    Solar_power := 0\<rparr>)"
proof -
  let ?s = "(init source_defaults)\<lparr>eclipse_begin := Some 0, Eclipse := 1\<rparr>"
  let ?t = "(init source_defaults)\<lparr>sim_time := 3600, eclipse_begin := Some 0, Eclipse := 1\<rparr>"
  have hs: "Eclipse ?s = 1 \<and> eclipse_begin ?s = Some 0
      \<and> py_div (sim_time ?s - 0) (eclipse_half_duration ?s) = Inr 0"
    by (simp add: init_source_defaults py_div_def)
  have ht: "Eclipse ?t = 1 \<and> eclipse_begin ?t = Some 0
      \<and> py_div (sim_time ?t - 0) (eclipse_half_duration ?t) = Inr 1"
    by (simp add: init_source_defaults py_div_def)
  have p0: "py_div (0 - 0) 3600 = Inr 0" and p1: "py_div (3600 - 0) 3600 = Inr 1"
    by (simp_all add: py_div_def)
  from eclipse_formulas_at_boundaries [of 110 ?s 0 0] hs
  have c0: "solar_update ?s = Inr ?s"
    by simp
  from eclipse_formulas_at_boundaries [of 110 ?t 0 1] ht
  have c1: "solar_update ?t = Inr (?t\<lparr>Solar_power := 0\<rparr>)"
    by simp
  from hs p0 p1 c0 c1 show ?thesis
    by simp
qed

section \<open>Discharging at zero voltage\<close>

lemma small_voltage_floored:
  "max (1 / 1000 + deltaV_of (0 - load_power_const) (1 / 1000)) 0 = 0"
proof -
  have "exp (1 / 1000 / 34 :: real) \<le> exp 1"
    by simp
  also have "\<dots> \<le> 3"
    by (rule exp_le)
  finally have e: "exp (1 / 1000 / 34 :: real) \<le> 3" .
  have "(1 / 1000 :: real) * (3600 * (80 * exp (1 / 1000 / 34))) \<le> 100 * 34"
    using e by simp
  then have "(1 / 1000 :: real) \<le> 100 * 34 / (3600 * (80 * exp (1 / 1000 / 34)))"
    by (simp add: pos_le_divide_eq)
  then have "1 / 1000 + deltaV_of (0 - load_power_const) (1 / 1000) \<le> 0"
    by (simp add: deltaV_of_unfold deltaT_def sim_interval_def hours_per_second_def
        seconds_per_hour_def battery_nominal_voltage_def model_constant_def
        load_power_const_def)
  then show ?thesis
    by (simp add: max_def)
qed

lemma init_low_defaults:
  "init (source_defaults\<lparr>d_V_sim := 1 / 1000, d_Solar_power := 0\<rparr>) =
     \<lparr>initOK = True, sim_time = 0, eclipse_half_duration = 3600,
      init_solar_power = 0, eclipse_begin = None,
      V_real = 34.02, I_real = -0.24, V_sim = 1 / 1000, I_sim = 0, V_target = 34,
      Solar_power = 0, Eclipse = 0, loop_exc = None\<rparr>"
  using max_voltage_ge_nominal
  by (simp add: init_def source_defaults_def solar_power_max_def)

lemma low_defaults_two_ticks:
  "main (source_defaults\<lparr>d_V_sim := 1 / 1000, d_Solar_power := 0\<rparr>)
     = Serving (init (source_defaults\<lparr>d_V_sim := 1 / 1000, d_Solar_power := 0\<rparr>))
   \<and> step (init (source_defaults\<lparr>d_V_sim := 1 / 1000, d_Solar_power := 0\<rparr>)) Tick
       = (init (source_defaults\<lparr>d_V_sim := 1 / 1000, d_Solar_power := 0\<rparr>))
           \<lparr>sim_time := 1, V_sim := 0, I_sim := - 100000\<rparr>
   \<and> tick ((init (source_defaults\<lparr>d_V_sim := 1 / 1000, d_Solar_power := 0\<rparr>))
              \<lparr>sim_time := 1, V_sim := 0, I_sim := - 100000\<rparr>)
       = Inl (ZeroDivisionError,
              (init (source_defaults\<lparr>d_V_sim := 1 / 1000, d_Solar_power := 0\<rparr>))
                \<lparr>sim_time := 1, V_sim := 0, I_sim := - 100000\<rparr>)
   \<and> loop_exc (run (init (source_defaults\<lparr>d_V_sim := 1 / 1000, d_Solar_power := 0\<rparr>))
                  [Tick, Tick]) = Some ZeroDivisionError"
proof -
  define s0 where "s0 = init (source_defaults\<lparr>d_V_sim := 1 / 1000, d_Solar_power := 0\<rparr>)"
  define s1 where "s1 = s0\<lparr>sim_time := 1, V_sim := 0, I_sim := - 100000\<rparr>"
  have f0: "sim_time s0 = 0" "V_sim s0 = 1 / 1000" "Solar_power s0 = 0" "Eclipse s0 = 0"
    "loop_exc s0 = None"
    by (simp_all add: s0_def init_low_defaults)
  have m: "main (source_defaults\<lparr>d_V_sim := 1 / 1000, d_Solar_power := 0\<rparr>) = Serving s0"
    by (simp add: main_def s0_def init_low_defaults)
  have net0: "Solar_power s0 - load_power_const < 0" and nz: "V_sim s0 \<noteq> 0"
    by (simp_all add: f0 load_power_const_def)
  have cu0: "charge_update s0 = Inr (s0\<lparr>V_sim := 0, I_sim := - 100000\<rparr>)"
    using charge_update_discharging [OF net0 nz] small_voltage_floored
    by (simp add: f0 load_power_const_def)
  have su0: "solar_update (s0\<lparr>V_sim := 0, I_sim := - 100000\<rparr>)
               = Inr (s0\<lparr>V_sim := 0, I_sim := - 100000\<rparr>)"
    by (simp add: solar_update_def f0)
  have t0: "tick s0 = Inr s1"
    by (simp add: tick_def cu0 su0 sim_interval_def f0 s1_def)
  have st0: "step s0 Tick = s1"
    by (simp add: t0 f0)
  have net1: "Solar_power s1 - load_power_const < 0" and z: "V_sim s1 = 0"
    by (simp_all add: s1_def f0 load_power_const_def)
  have t1: "tick s1 = Inl (ZeroDivisionError, s1)"
    using charge_update_zero_voltage [OF net1 z] by (simp add: tick_def)
  have alive: "loop_exc s1 = None"
    by (simp add: s1_def f0)
  have st1: "step s1 Tick = s1\<lparr>loop_exc := Some ZeroDivisionError\<rparr>"
    using alive t1 by simp
  have "run s0 [Tick, Tick] = step (step s0 Tick) Tick"
    by (simp only: run.simps)
  then have "run s0 [Tick, Tick] = s1\<lparr>loop_exc := Some ZeroDivisionError\<rparr>"
    by (simp only: st0 st1)
  then have "loop_exc (run s0 [Tick, Tick]) = Some ZeroDivisionError"
    by simp
  with m st0 t1 show ?thesis
    unfolding s1_def s0_def by blast
qed

section \<open>The eclipse putter\<close>

lemma trunc_toward_zero_in_range:
  "0 \<le> trunc_toward_zero x \<and> trunc_toward_zero x < 2 \<longleftrightarrow> - 1 < x \<and> x < 2"
proof (cases "0 \<le> x")
  case True
  then show ?thesis
    by (simp add: trunc_toward_zero_def floor_less_iff)
next
  case False
  then have "\<lceil>x\<rceil> \<le> 0"
    by (simp add: ceiling_le_iff)
  moreover have "0 \<le> \<lceil>x\<rceil> \<longleftrightarrow> - 1 < x"
    by (simp add: le_ceiling_iff)
  ultimately show ?thesis
    using False by (simp add: trunc_toward_zero_def)
qed

lemma requested_state_rejected:
  assumes "(\<exists>str. v = PStr str \<and> str \<noteq> ''Non-Eclipse'' \<and> str \<noteq> ''Eclipse'')
    \<or> (\<exists>i. v = PInt i \<and> i \<noteq> 0 \<and> i \<noteq> 1)
    \<or> (\<exists>x. v = PFloat x \<and> (x \<le> - 1 \<or> 2 \<le> x))
    \<or> v = PNone"
  shows "requested_state v = None"
proof (cases v)
  case (PFloat x)
  with assms have "x \<le> - 1 \<or> 2 \<le> x"
    by simp
  then have "\<not> (0 \<le> trunc_toward_zero x \<and> trunc_toward_zero x < 2)"
    unfolding trunc_toward_zero_in_range by linarith
  with PFloat show ?thesis
    by (simp add: requested_state_def)
qed (use assms in \<open>auto simp add: requested_state_def\<close>)

lemma written_state_rejected:
  assumes "(\<exists>str. v = PStr str \<and> str \<noteq> ''Non-Eclipse'' \<and> str \<noteq> ''Eclipse'')
    \<or> (\<exists>i. v = PInt i \<and> (i < - 2 \<or> 2 \<le> i))
    \<or> (\<exists>x. v = PFloat x \<and> (x \<le> - 1 \<or> 2 \<le> x))
    \<or> v = PNone"
  shows "requested_state (enum_verify_value v) = None"
proof -
  have "v \<noteq> PInt (- 1)" and "v \<noteq> PInt (- 2)"
    using assms by auto
  moreover have "requested_state v = None"
    using assms by (intro requested_state_rejected) auto
  ultimately show ?thesis
    by (simp add: requested_state_written)
qed

text \<open>
  C4, as the code has it. A write request to the eclipse flag is rejected when it is a
  string other than the two state names, an int below \<open>-2\<close> or above \<open>1\<close>, a float
  whose truncation toward zero is neither 0 nor 1 (a float at or below \<open>-1\<close>, or at or
  above \<open>2\<close>), or neither a string nor a number: the committed value is the prior value
  and the instance is unchanged (no onset recorded, no solar power restored). The
  putter itself rejects every int other than 0 and 1 that reaches it; the ints \<open>-1\<close> and
  \<open>-2\<close> reach it as state names.
\<close>

theorem Eclipse_putter_rejects_invalid:
  "((\<exists>str. v = PStr str \<and> str \<noteq> ''Non-Eclipse'' \<and> str \<noteq> ''Eclipse'')
      \<or> (\<exists>i. v = PInt i \<and> (i < - 2 \<or> 2 \<le> i))
      \<or> (\<exists>x. v = PFloat x \<and> (x \<le> - 1 \<or> 2 \<le> x))
      \<or> v = PNone \<longrightarrow>
    Eclipse_write self v = self)
   \<and> ((\<exists>str. v = PStr str \<and> str \<noteq> ''Non-Eclipse'' \<and> str \<noteq> ''Eclipse'')
      \<or> (\<exists>i. v = PInt i \<and> i \<noteq> 0 \<and> i \<noteq> 1)
      \<or> (\<exists>x. v = PFloat x \<and> (x \<le> - 1 \<or> 2 \<le> x))
      \<or> v = PNone \<longrightarrow>
    Eclipse_putter self v = (Eclipse self, self))"
proof (intro conjI impI)
  assume "(\<exists>str. v = PStr str \<and> str \<noteq> ''Non-Eclipse'' \<and> str \<noteq> ''Eclipse'')
    \<or> (\<exists>i. v = PInt i \<and> (i < - 2 \<or> 2 \<le> i))
    \<or> (\<exists>x. v = PFloat x \<and> (x \<le> - 1 \<or> 2 \<le> x))
    \<or> v = PNone"
  then have "requested_state (enum_verify_value v) = None"
    by (rule written_state_rejected)
  then show "Eclipse_write self v = self"
    by (simp add: Eclipse_write_resolved)
next
  assume "(\<exists>str. v = PStr str \<and> str \<noteq> ''Non-Eclipse'' \<and> str \<noteq> ''Eclipse'')
    \<or> (\<exists>i. v = PInt i \<and> i \<noteq> 0 \<and> i \<noteq> 1)
    \<or> (\<exists>x. v = PFloat x \<and> (x \<le> - 1 \<or> 2 \<le> x))
    \<or> v = PNone"
  then have "requested_state v = None"
    by (rule requested_state_rejected)
  then show "Eclipse_putter self v = (Eclipse self, self)"
    by (simp add: Eclipse_putter_resolved)
qed

theorem Eclipse_putter_rejects_invalid_witness:
  "Eclipse_write (init source_defaults) (PStr ''Dark'') = init source_defaults
   \<and> Eclipse_write (init source_defaults) (PInt 2) = init source_defaults
   \<and> Eclipse_write (init source_defaults) (PInt (- 3)) = init source_defaults
   \<and> Eclipse_write (init source_defaults) (PFloat 2.5) = init source_defaults
   \<and> Eclipse_write (init source_defaults) PNone = init source_defaults
   \<and> Eclipse_putter (init source_defaults) (PStr ''Dark'')
      = (Eclipse (init source_defaults), init source_defaults)
   \<and> Eclipse_putter (init source_defaults) (PInt (- 1))
      = (Eclipse (init source_defaults), init source_defaults)
   \<and> Eclipse_putter (init source_defaults) (PFloat 2.5)
      = (Eclipse (init source_defaults), init source_defaults)
   \<and> Eclipse_putter (init source_defaults) PNone
      = (Eclipse (init source_defaults), init source_defaults)"
proof -
  let ?s = "init source_defaults"
  have h1: "\<exists>str. PStr ''Dark'' = PStr str \<and> str \<noteq> ''Non-Eclipse'' \<and> str \<noteq> ''Eclipse''"
    by simp
  have h2: "\<exists>i. PInt 2 = PInt i \<and> (i < - 2 \<or> 2 \<le> i)"
    by simp
  have h3: "\<exists>i. PInt (- 3) = PInt i \<and> (i < - 2 \<or> 2 \<le> i)"
    by simp
  have h4: "\<exists>x. PFloat 2.5 = PFloat x \<and> (x \<le> - 1 \<or> 2 \<le> x)"
    by (intro exI [of _ "2.5"]) simp
  have h5: "\<exists>i. PInt (- 1) = PInt i \<and> i \<noteq> 0 \<and> i \<noteq> 1"
    by simp
  from Eclipse_putter_rejects_invalid [of "PStr ''Dark''" ?s] h1
  have c1: "Eclipse_write ?s (PStr ''Dark'') = ?s"
    and p1: "Eclipse_putter ?s (PStr ''Dark'') = (Eclipse ?s, ?s)"
    by blast+
  from Eclipse_putter_rejects_invalid [of "PInt 2" ?s] h2
  have c2: "Eclipse_write ?s (PInt 2) = ?s"
    by blast
  from Eclipse_putter_rejects_invalid [of "PInt (- 3)" ?s] h3
  have c3: "Eclipse_write ?s (PInt (- 3)) = ?s"
    by blast
  from Eclipse_putter_rejects_invalid [of "PFloat 2.5" ?s] h4
  have c4: "Eclipse_write ?s (PFloat 2.5) = ?s"
    and p4: "Eclipse_putter ?s (PFloat 2.5) = (Eclipse ?s, ?s)"
    by blast+
  from Eclipse_putter_rejects_invalid [of PNone ?s]
  have c5: "Eclipse_write ?s PNone = ?s"
    and p5: "Eclipse_putter ?s PNone = (Eclipse ?s, ?s)"
    by blast+
  from Eclipse_putter_rejects_invalid [of "PInt (- 1)" ?s] h5
  have p2: "Eclipse_putter ?s (PInt (- 1)) = (Eclipse ?s, ?s)"
    by blast
  from c1 c2 c3 c4 c5 p1 p2 p4 p5 show ?thesis
    by (simp only: simp_thms)
qed

text \<open>
  C4 does not hold for every number other than 0 and 1. The putter tests
  \<^verbatim>\<open>int(value) in range(2)\<close>, and \<^verbatim>\<open>int\<close> truncates toward zero, so the float \<open>-0.5\<close>
  is accepted as state 0: during an eclipse this commits 0 instead of the prior 1 and
  restores the solar power. And the PV layer passes the int \<open>-1\<close> on as the state name
  \<^verbatim>\<open>"Eclipse"\<close>: outside an eclipse this commits 1 and records the onset.
\<close>

theorem fractional_eclipse_request_accepted:
  "(- 0.5 :: real) \<noteq> 0 \<and> (- 0.5 :: real) \<noteq> 1 \<and> (- 0.5 :: real) < 0
   \<and> Eclipse ((init source_defaults)\<lparr>sim_time := 3601, eclipse_begin := Some 0,
                                     Solar_power := 0, Eclipse := 1\<rparr>) = 1
   \<and> Eclipse_putter ((init source_defaults)\<lparr>sim_time := 3601, eclipse_begin := Some 0,
                                            Solar_power := 0, Eclipse := 1\<rparr>) (PFloat (- 0.5))
       = (0, (init source_defaults)\<lparr>sim_time := 3601, eclipse_begin := Some 0,
                                     Solar_power := 110, Eclipse := 1\<rparr>)
   \<and> Eclipse_write ((init source_defaults)\<lparr>sim_time := 3601, eclipse_begin := Some 0,
                                           Solar_power := 0, Eclipse := 1\<rparr>) (PFloat (- 0.5))
       = (init source_defaults)\<lparr>sim_time := 3601, eclipse_begin := Some 0,
                                 Solar_power := 110, Eclipse := 0\<rparr>
   \<and> Eclipse (init source_defaults) = 0
   \<and> Eclipse_write (init source_defaults) (PInt (- 1))
       = (init source_defaults)\<lparr>eclipse_begin := Some 0, Eclipse := 1\<rparr>"
proof -
  have c: "\<lceil>- (1 / 2) :: real\<rceil> = 0"
    by (simp add: ceiling_eq_iff)
  have putter: "Eclipse_putter ((init source_defaults)\<lparr>sim_time := 3601, eclipse_begin := Some 0,
                                            Solar_power := 0, Eclipse := 1\<rparr>) (PFloat (- 0.5))
       = (0, (init source_defaults)\<lparr>sim_time := 3601, eclipse_begin := Some 0,
                                     Solar_power := 110, Eclipse := 1\<rparr>)"
    using c by (simp add: Eclipse_putter_def init_source_defaults trunc_toward_zero_def)
  have w1: "Eclipse_write ((init source_defaults)\<lparr>sim_time := 3601, eclipse_begin := Some 0,
                                           Solar_power := 0, Eclipse := 1\<rparr>) (PFloat (- 0.5))
       = (init source_defaults)\<lparr>sim_time := 3601, eclipse_begin := Some 0,
                                 Solar_power := 110, Eclipse := 0\<rparr>"
    unfolding Eclipse_write_def enum_verify_value_other putter by simp
  have e0: "Eclipse (init source_defaults) = 0"
    by (simp add: init_source_defaults)
  have "requested_state (enum_verify_value (PInt (- 1))) = Some 1"
    by (simp add: requested_state_written)
  then have w2: "Eclipse_write (init source_defaults) (PInt (- 1))
       = (init source_defaults)\<lparr>eclipse_begin := Some 0, Eclipse := 1\<rparr>"
    by (simp add: Eclipse_write_resolved e0) (simp add: init_source_defaults)
  from putter w1 e0 w2 show ?thesis
    by simp
qed

lemma Eclipse_putter_accepts:
  shows "fst (Eclipse_putter self (PStr ''Eclipse'')) = 1"
    and "fst (Eclipse_putter self (PInt 1)) = 1"
    and "fst (Eclipse_putter self (PStr ''Non-Eclipse'')) = 0"
    and "fst (Eclipse_putter self (PInt 0)) = 0"
  by (simp_all add: Eclipse_putter_resolved requested_state_def)

lemma Eclipse_putter_cases:
  obtains (rejected) "Eclipse_putter s v = (Eclipse s, s)"
  | (enter) "Eclipse s = 0" "Eclipse_putter s v = (1, s\<lparr>eclipse_begin := Some (sim_time s)\<rparr>)"
  | (leave) "Eclipse s = 1" "Eclipse_putter s v = (0, s\<lparr>Solar_power := init_solar_power s\<rparr>)"
  | (stay1) "Eclipse s \<noteq> 0" "Eclipse_putter s v = (1, s)"
  | (stay0) "Eclipse s \<noteq> 1" "Eclipse_putter s v = (0, s)"
proof (cases "requested_state v")
  case None
  then have "Eclipse_putter s v = (Eclipse s, s)"
    by (simp add: Eclipse_putter_resolved)
  then show ?thesis
    by (rule rejected)
next
  case (Some n)
  then have "n = 0 \<or> n = 1"
    by (rule requested_state_range)
  then show ?thesis
  proof
    assume n: "n = 0"
    show ?thesis
    proof (cases "Eclipse s = 1")
      case True
      with Some n have "Eclipse_putter s v = (0, s\<lparr>Solar_power := init_solar_power s\<rparr>)"
        by (simp add: Eclipse_putter_resolved)
      with True show ?thesis
        by (rule leave)
    next
      case False
      with Some n have "Eclipse_putter s v = (0, s)"
        by (simp add: Eclipse_putter_resolved)
      with False show ?thesis
        by (rule stay0)
    qed
  next
    assume n: "n = 1"
    show ?thesis
    proof (cases "Eclipse s = 0")
      case True
      with Some n have "Eclipse_putter s v = (1, s\<lparr>eclipse_begin := Some (sim_time s)\<rparr>)"
        by (simp add: Eclipse_putter_resolved)
      with True show ?thesis
        by (rule enter)
    next
      case False
      with Some n have "Eclipse_putter s v = (1, s)"
        by (simp add: Eclipse_putter_resolved)
      with False show ?thesis
        by (rule stay1)
    qed
  qed
qed

lemma Eclipse_putter_enter:
  assumes "Eclipse s = 0" and "fst (Eclipse_putter s v) = 1"
  shows "snd (Eclipse_putter s v) = s\<lparr>eclipse_begin := Some (sim_time s)\<rparr>"
  by (rule Eclipse_putter_cases [of s v]) (use assms in simp_all)

lemma Eclipse_putter_leave:
  assumes "Eclipse s = 1" and "fst (Eclipse_putter s v) = 0"
  shows "snd (Eclipse_putter s v) = s\<lparr>Solar_power := init_solar_power s\<rparr>"
  by (rule Eclipse_putter_cases [of s v]) (use assms in simp_all)

lemma Eclipse_putter_same:
  assumes "fst (Eclipse_putter s v) = Eclipse s"
  shows "snd (Eclipse_putter s v) = s"
  by (rule Eclipse_putter_cases [of s v]) (use assms in simp_all)

lemma Eclipse_write_leave:
  assumes "Eclipse s = 1" and "fst (Eclipse_putter s v) = 0"
  shows "Eclipse_write s v = s\<lparr>Solar_power := init_solar_power s, Eclipse := 0\<rparr>"
proof -
  have r: "requested_state v = Some 0"
    using assms by (cases "requested_state v")
      (auto simp add: Eclipse_putter_resolved split: if_splits)
  then have "v \<noteq> PInt (- 1)" and "v \<noteq> PInt (- 2)"
    by (auto simp add: requested_state_def)
  with r have "requested_state (enum_verify_value v) = Some 0"
    by (simp add: requested_state_written)
  then show ?thesis
    using assms(1) by (simp add: Eclipse_write_resolved)
qed

text \<open>
  C5. The requests \<^verbatim>\<open>"Eclipse"\<close> and 1 resolve to state 1, \<^verbatim>\<open>"Non-Eclipse"\<close> and 0 to
  state 0. A write that takes the flag from 0 to 1 records the current simulated time
  in \<open>eclipse_begin\<close> and changes nothing else; a write that takes it from 1 to 0 sets
  the solar power to \<open>init_solar_power\<close> and changes nothing else; a write that commits
  the prior value has no side effect. After any sequence of loop iterations and write
  requests \<open>init_solar_power\<close> is still the default solar power captured at startup, so
  leaving the eclipse restores exactly that value.
\<close>

theorem Eclipse_putter_transitions:
  "fst (Eclipse_putter self (PStr ''Eclipse'')) = 1
   \<and> fst (Eclipse_putter self (PInt 1)) = 1
   \<and> fst (Eclipse_putter self (PStr ''Non-Eclipse'')) = 0
   \<and> fst (Eclipse_putter self (PInt 0)) = 0
   \<and> (Eclipse self = 0 \<and> fst (Eclipse_putter self v) = 1 \<longrightarrow>
        snd (Eclipse_putter self v) = self\<lparr>eclipse_begin := Some (sim_time self)\<rparr>)
   \<and> (Eclipse self = 1 \<and> fst (Eclipse_putter self v) = 0 \<longrightarrow>
        snd (Eclipse_putter self v) = self\<lparr>Solar_power := init_solar_power self\<rparr>)
   \<and> (fst (Eclipse_putter self v) = Eclipse self \<longrightarrow> snd (Eclipse_putter self v) = self)
   \<and> (published (main d) es = Some s \<and> Eclipse s = 1 \<and> fst (Eclipse_putter s v) = 0 \<longrightarrow>
        Solar_power (snd (Eclipse_putter s v)) = d_Solar_power d
        \<and> Solar_power (Eclipse_write s v) = d_Solar_power d)"
proof (intro conjI impI)
  show "fst (Eclipse_putter self (PStr ''Eclipse'')) = 1"
    and "fst (Eclipse_putter self (PInt 1)) = 1"
    and "fst (Eclipse_putter self (PStr ''Non-Eclipse'')) = 0"
    and "fst (Eclipse_putter self (PInt 0)) = 0"
    by (rule Eclipse_putter_accepts)+
next
  assume "Eclipse self = 0 \<and> fst (Eclipse_putter self v) = 1"
  then show "snd (Eclipse_putter self v) = self\<lparr>eclipse_begin := Some (sim_time self)\<rparr>"
    by (simp add: Eclipse_putter_enter)
next
  assume "Eclipse self = 1 \<and> fst (Eclipse_putter self v) = 0"
  then show "snd (Eclipse_putter self v) = self\<lparr>Solar_power := init_solar_power self\<rparr>"
    by (simp add: Eclipse_putter_leave)
next
  assume "fst (Eclipse_putter self v) = Eclipse self"
  then show "snd (Eclipse_putter self v) = self"
    by (rule Eclipse_putter_same)
next
  assume h: "published (main d) es = Some s \<and> Eclipse s = 1 \<and> fst (Eclipse_putter s v) = 0"
  then have "published (main d) es = Some s"
    by blast
  then have isp: "init_solar_power s = d_Solar_power d"
    by (rule published_init_solar_power)
  from h have sn: "snd (Eclipse_putter s v) = s\<lparr>Solar_power := init_solar_power s\<rparr>"
    by (simp add: Eclipse_putter_leave)
  show "Solar_power (snd (Eclipse_putter s v)) = d_Solar_power d"
    by (simp add: sn isp)
  show "Solar_power (Eclipse_write s v) = d_Solar_power d"
    using h by (simp add: Eclipse_write_leave isp)
qed

theorem Eclipse_putter_transitions_witness:
  "Eclipse (init source_defaults) = 0
   \<and> fst (Eclipse_putter (init source_defaults) (PStr ''Eclipse'')) = 1
   \<and> snd (Eclipse_putter (init source_defaults) (PStr ''Eclipse''))
       = (init source_defaults)\<lparr>eclipse_begin := Some (sim_time (init source_defaults))\<rparr>
   \<and> fst (Eclipse_putter (init source_defaults) (PInt 0)) = Eclipse (init source_defaults)
   \<and> snd (Eclipse_putter (init source_defaults) (PInt 0)) = init source_defaults
   \<and> published (main source_defaults) [Put_Eclipse (PInt 1)]
       = Some ((init source_defaults)\<lparr>eclipse_begin := Some 0, Eclipse := 1\<rparr>)
   \<and> Eclipse ((init source_defaults)\<lparr>eclipse_begin := Some 0, Eclipse := 1\<rparr>) = 1
   \<and> fst (Eclipse_putter ((init source_defaults)\<lparr>eclipse_begin := Some 0, Eclipse := 1\<rparr>)
            (PInt 0)) = 0
   \<and> snd (Eclipse_putter ((init source_defaults)\<lparr>eclipse_begin := Some 0, Eclipse := 1\<rparr>)
            (PInt 0))
       = (init source_defaults)\<lparr>eclipse_begin := Some 0, Eclipse := 1,
            Solar_power := init_solar_power (init source_defaults)\<rparr>
   \<and> Solar_power (Eclipse_write
         ((init source_defaults)\<lparr>eclipse_begin := Some 0, Eclipse := 1\<rparr>) (PInt 0))
       = d_Solar_power source_defaults"
proof -
  let ?s0 = "init source_defaults"
  let ?s1 = "(init source_defaults)\<lparr>eclipse_begin := Some 0, Eclipse := 1\<rparr>"
  have e0: "Eclipse ?s0 = 0" and e1: "Eclipse ?s1 = 1"
    by (simp_all add: init_source_defaults)
  have pub: "published (main source_defaults) [Put_Eclipse (PInt 1)] = Some ?s1"
    by (simp add: main_source_defaults Eclipse_write_PInt_1)
      (simp add: init_source_defaults)
  note t0 = Eclipse_putter_transitions
    [of ?s0 "PStr ''Eclipse''" source_defaults "[Put_Eclipse (PInt 1)]" ?s1]
  note t1 = Eclipse_putter_transitions
    [of ?s0 "PInt 0" source_defaults "[Put_Eclipse (PInt 1)]" ?s1]
  note t2 = Eclipse_putter_transitions
    [of ?s1 "PInt 0" source_defaults "[Put_Eclipse (PInt 1)]" ?s1]
  from t0 e0 have c0: "fst (Eclipse_putter ?s0 (PStr ''Eclipse'')) = 1
      \<and> snd (Eclipse_putter ?s0 (PStr ''Eclipse''))
          = ?s0\<lparr>eclipse_begin := Some (sim_time ?s0)\<rparr>"
    by blast
  from t1 e0 have c1: "fst (Eclipse_putter ?s0 (PInt 0)) = Eclipse ?s0
      \<and> snd (Eclipse_putter ?s0 (PInt 0)) = ?s0"
    by simp
  from t2 e1 pub have c2: "fst (Eclipse_putter ?s1 (PInt 0)) = 0
      \<and> snd (Eclipse_putter ?s1 (PInt 0)) = ?s1\<lparr>Solar_power := init_solar_power ?s1\<rparr>
      \<and> Solar_power (Eclipse_write ?s1 (PInt 0)) = d_Solar_power source_defaults"
    by blast
  have "init_solar_power ?s1 = init_solar_power ?s0"
    by simp
  with e0 e1 pub c0 c1 c2 show ?thesis
    by simp
qed

section \<open>Draining the battery from the defaults of the source\<close>

lemma deltaV_of_drain:
  assumes "p \<le> - 45" and "0 \<le> v" and "v \<le> 32"
  shows "deltaV_of p v \<le> - (17 / 9600)"
proof -
  let ?E = "exp (v / 34)"
  have "?E \<le> exp 1"
    using assms by simp
  also have "\<dots> \<le> 3"
    by (rule exp_le)
  finally have E3: "?E \<le> 3" .
  have Epos: "0 < ?E"
    by simp
  have "p / ?E \<le> p / 3"
    using E3 assms(1) Epos by (intro divide_left_mono_neg) simp_all
  also have "\<dots> \<le> - 15"
    using assms(1) by simp
  finally have q: "p / ?E \<le> - 15" .
  have "deltaV_of p v = (p / ?E) * (34 / 288000)"
    by (simp add: deltaV_of_unfold deltaT_def sim_interval_def hours_per_second_def
        seconds_per_hour_def battery_nominal_voltage_def model_constant_def)
  also have "\<dots> \<le> (- 15) * (34 / 288000)"
    using q by (intro mult_right_mono) simp_all
  finally show ?thesis
    by simp
qed

lemma charge_update_no_target:
  assumes "V_target s = 0" and "0 \<le> V_sim s" and "V_sim s \<le> 32"
  shows "(charge_update s = Inl ZeroDivisionError)
    \<or> (\<exists>v i. charge_update s = Inr (s\<lparr>V_sim := v, I_sim := i\<rparr>) \<and> 0 \<le> v \<and> v \<le> V_sim s
          \<and> (Solar_power s \<le> 55 \<longrightarrow> 0 < V_sim s \<and> v \<le> max (V_sim s - 17 / 9600) 0))"
proof -
  let ?p = "Solar_power s - load_power_const"
  have nocharge: "\<not> (?p > 0 \<and> V_sim s < V_target s)"
    using assms by simp
  show ?thesis
  proof (cases "?p < 0")
    case False
    with nocharge have "charge_update s = Inr s"
      by (rule charge_update_idle)
    then have "charge_update s = Inr (s\<lparr>V_sim := V_sim s, I_sim := I_sim s\<rparr>)"
      by simp
    moreover have "\<not> Solar_power s \<le> 55"
      using False by (simp add: load_power_const_def)
    ultimately have "charge_update s = Inr (s\<lparr>V_sim := V_sim s, I_sim := I_sim s\<rparr>)
          \<and> 0 \<le> V_sim s \<and> V_sim s \<le> V_sim s
          \<and> (Solar_power s \<le> 55 \<longrightarrow>
                0 < V_sim s \<and> V_sim s \<le> max (V_sim s - 17 / 9600) 0)"
      using assms(2) by (simp only: simp_thms order_refl)
    then have "\<exists>v i. charge_update s = Inr (s\<lparr>V_sim := v, I_sim := i\<rparr>) \<and> 0 \<le> v
          \<and> v \<le> V_sim s
          \<and> (Solar_power s \<le> 55 \<longrightarrow> 0 < V_sim s \<and> v \<le> max (V_sim s - 17 / 9600) 0)"
      by (intro exI [of _ "V_sim s"] exI [of _ "I_sim s"])
    then show ?thesis ..
  next
    case neg: True
    show ?thesis
    proof (cases "V_sim s = 0")
      case True
      with neg have "charge_update s = Inl ZeroDivisionError"
        by (rule charge_update_zero_voltage)
      then show ?thesis ..
    next
      case False
      let ?v = "max (V_sim s + deltaV_of ?p (V_sim s)) 0"
      have cu: "charge_update s = Inr (s\<lparr>V_sim := ?v, I_sim := ?p / V_sim s\<rparr>)"
        using neg False by (rule charge_update_discharging)
      have dneg: "deltaV_of ?p (V_sim s) < 0"
        using neg by (rule deltaV_of_neg)
      have r: "0 \<le> ?v \<and> ?v \<le> V_sim s"
        using dneg assms(2) by (simp add: max_def)
      have "0 < V_sim s \<and> ?v \<le> max (V_sim s - 17 / 9600) 0" if "Solar_power s \<le> 55"
      proof -
        have "?p \<le> - 45"
          using that by (simp add: load_power_const_def)
        then have "deltaV_of ?p (V_sim s) \<le> - (17 / 9600)"
          using assms(2,3) by (rule deltaV_of_drain)
        then show ?thesis
          using False assms(2) by (simp add: max_def)
      qed
      then have drain: "Solar_power s \<le> 55 \<longrightarrow>
          0 < V_sim s \<and> ?v \<le> max (V_sim s - 17 / 9600) 0"
        by (rule impI)
      have "charge_update s = Inr (s\<lparr>V_sim := ?v, I_sim := ?p / V_sim s\<rparr>)
          \<and> 0 \<le> ?v \<and> ?v \<le> V_sim s
          \<and> (Solar_power s \<le> 55 \<longrightarrow> 0 < V_sim s \<and> ?v \<le> max (V_sim s - 17 / 9600) 0)"
        using cu r drain by (simp only: simp_thms)
      then have "\<exists>v i. charge_update s = Inr (s\<lparr>V_sim := v, I_sim := i\<rparr>) \<and> 0 \<le> v
          \<and> v \<le> V_sim s
          \<and> (Solar_power s \<le> 55 \<longrightarrow> 0 < V_sim s \<and> v \<le> max (V_sim s - 17 / 9600) 0)"
        by (intro exI [of _ ?v] exI [of _ "?p / V_sim s"])
      then show ?thesis ..
    qed
  qed
qed

lemma solar_update_entry_phase:
  assumes "Eclipse s = 1" and "eclipse_begin s = Some t0" and "sim_time s = t0 + real k"
    and "eclipse_half_duration s = 3600" and "init_solar_power s = 110"
    and "0 \<le> Solar_power s" and "Solar_power s \<le> 110" and "k \<le> 3600"
  shows "\<exists>p. solar_update s = Inr (s\<lparr>Solar_power := p\<rparr>) \<and> 0 \<le> p \<and> p \<le> 110
            \<and> (2400 \<le> k \<longrightarrow> p \<le> 55)"
proof -
  let ?tmp = "real k / 3600"
  have pd: "py_div (sim_time s - t0) (eclipse_half_duration s) = Inr ?tmp"
    using assms by (simp add: py_div_def)
  show ?thesis
  proof (cases "k = 0")
    case True
    then have "solar_update s = Inr s"
      using assms(1,2) pd by (intro solar_update_early [of s t0 ?tmp]) simp_all
    then have "solar_update s = Inr (s\<lparr>Solar_power := Solar_power s\<rparr>)"
      by simp
    with assms True show ?thesis
      by (intro exI [of _ "Solar_power s"]) simp
  next
    case False
    then have lo: "0 < ?tmp" and hi: "?tmp \<le> 1"
      using assms(8) by simp_all
    let ?p = "eclipse_entry_power 110 ?tmp"
    have su: "solar_update s = Inr (s\<lparr>Solar_power := ?p\<rparr>)"
      using solar_update_entry [OF assms(1,2) pd lo hi] by (simp add: assms(5))
    have b: "0 \<le> ?p" "?p \<le> 110"
      using eclipse_entry_power_bounds [of 110 ?tmp] lo hi by simp_all
    have "?p \<le> 55" if "2400 \<le> k"
    proof -
      have "2 / 3 \<le> ?tmp"
        using that by simp
      then have "pi / 3 \<le> 0.5 * pi * ?tmp"
        using pi_gt_zero by (simp add: field_simps)
      moreover have "0.5 * pi * ?tmp \<le> pi"
        using hi pi_gt_zero by (simp add: field_simps)
      moreover have "0 \<le> pi / 3"
        using pi_gt_zero by simp
      ultimately have "cos (0.5 * pi * ?tmp) \<le> cos (pi / 3)"
        by (intro cos_monotone_0_pi_le)
      then have "cos (0.5 * pi * ?tmp) \<le> 1 / 2"
        by (simp add: cos_60)
      then show ?thesis
        by (simp add: eclipse_entry_power_def)
    qed
    then have low: "2400 \<le> k \<longrightarrow> ?p \<le> 55"
      by (rule impI)
    have "solar_update s = Inr (s\<lparr>Solar_power := ?p\<rparr>) \<and> 0 \<le> ?p \<and> ?p \<le> 110
            \<and> (2400 \<le> k \<longrightarrow> ?p \<le> 55)"
      using su b low by (simp only: simp_thms)
    then show ?thesis
      by (intro exI [of _ ?p])
  qed
qed

lemma crashed_step: "crashed s \<Longrightarrow> crashed (step s e)"
  by (cases e) (simp_all add: crashed_def V_target_write_eq Eclipse_write_frame)

lemma crashed_run: "crashed s \<Longrightarrow> crashed (run s es)"
  by (induction es arbitrary: s) (simp_all add: crashed_step)

lemma run_append: "run s (es @ fs) = run (run s es) fs"
  by (induction es arbitrary: s) simp_all

lemma step_Tick_in_eclipse:
  assumes "in_eclipse t0 k s" and "k \<le> 3600"
  shows "crashed (step s Tick)
    \<or> (in_eclipse t0 (Suc k) (step s Tick) \<and> V_sim (step s Tick) \<le> V_sim s
        \<and> (2401 \<le> k \<longrightarrow>
              0 < V_sim s \<and> V_sim (step s Tick) \<le> max (V_sim s - 17 / 9600) 0))"
proof -
  from assms(1) have alive: "loop_exc s = None" and ecl: "Eclipse s = 1"
    and beg: "eclipse_begin s = Some t0" and time: "sim_time s = t0 + real k"
    and half: "eclipse_half_duration s = 3600" and isp: "init_solar_power s = 110"
    and tgt: "V_target s = 0" and v0: "0 \<le> V_sim s" and v32: "V_sim s \<le> 32"
    and sp0: "0 \<le> Solar_power s" and sp110: "Solar_power s \<le> 110"
    and low: "2401 \<le> k \<longrightarrow> Solar_power s \<le> 55"
    by (simp_all add: in_eclipse_def)
  from charge_update_no_target [OF tgt v0 v32] show ?thesis
  proof (elim disjE exE conjE)
    assume "charge_update s = Inl ZeroDivisionError"
    then have "step s Tick = s\<lparr>loop_exc := Some ZeroDivisionError\<rparr>"
      using alive by (simp add: tick_def)
    then have "crashed (step s Tick)"
      by (simp add: crashed_def)
    then show ?thesis ..
  next
    fix v i
    assume cu: "charge_update s = Inr (s\<lparr>V_sim := v, I_sim := i\<rparr>)"
      and v: "0 \<le> v" "v \<le> V_sim s"
      and drain: "Solar_power s \<le> 55 \<longrightarrow> 0 < V_sim s \<and> v \<le> max (V_sim s - 17 / 9600) 0"
    let ?s1 = "s\<lparr>V_sim := v, I_sim := i\<rparr>"
    have "\<exists>p. solar_update ?s1 = Inr (?s1\<lparr>Solar_power := p\<rparr>) \<and> 0 \<le> p \<and> p \<le> 110
            \<and> (2400 \<le> k \<longrightarrow> p \<le> 55)"
      using ecl beg time half isp sp0 sp110 assms(2)
      by (intro solar_update_entry_phase [of ?s1 t0 k]) simp_all
    then obtain p where su: "solar_update ?s1 = Inr (?s1\<lparr>Solar_power := p\<rparr>)"
      and p: "0 \<le> p" "p \<le> 110" "2400 \<le> k \<longrightarrow> p \<le> 55"
      by (elim exE conjE)
    have st: "step s Tick
        = s\<lparr>V_sim := v, I_sim := i, Solar_power := p, sim_time := t0 + real k + 1\<rparr>"
      using alive by (simp add: tick_def cu su sim_interval_def time)
    have "in_eclipse t0 (Suc k) (step s Tick)"
      unfolding st using alive ecl beg half isp tgt v v32 p
      by (simp add: in_eclipse_def)
    moreover have "V_sim (step s Tick) \<le> V_sim s"
      unfolding st using v by simp
    moreover have "2401 \<le> k \<longrightarrow>
        0 < V_sim s \<and> V_sim (step s Tick) \<le> max (V_sim s - 17 / 9600) 0"
      unfolding st using low drain by simp
    ultimately show ?thesis
      by (intro disjI2 conjI)
  qed
qed

lemma run_ticks_in_eclipse:
  assumes "in_eclipse t0 k s" and "k + n \<le> 3601"
  shows "crashed (run s (replicate n Tick))
    \<or> (in_eclipse t0 (k + n) (run s (replicate n Tick))
        \<and> V_sim (run s (replicate n Tick)) \<le> V_sim s
        \<and> (2401 \<le> k \<longrightarrow>
              (0 < n \<longrightarrow> 0 < V_sim s)
              \<and> V_sim (run s (replicate n Tick)) \<le> max (V_sim s - real n * (17 / 9600)) 0))"
  using assms
proof (induction n arbitrary: s k)
  case 0
  then have "0 \<le> V_sim s"
    by (simp add: in_eclipse_def)
  with 0 show ?case
    by simp
next
  case (Suc n)
  define s' where "s' = step s Tick"
  define r where "r = run s' (replicate n Tick)"
  have run_eq: "run s (replicate (Suc n) Tick) = r"
    by (simp add: r_def s'_def)
  have k: "k \<le> 3600"
    using Suc.prems(2) by simp
  have first: "crashed s'
    \<or> (in_eclipse t0 (Suc k) s' \<and> V_sim s' \<le> V_sim s
        \<and> (2401 \<le> k \<longrightarrow> 0 < V_sim s \<and> V_sim s' \<le> max (V_sim s - 17 / 9600) 0))"
    unfolding s'_def using Suc.prems(1) k by (rule step_Tick_in_eclipse)
  have rest: "crashed r
    \<or> (in_eclipse t0 (Suc k + n) r \<and> V_sim r \<le> V_sim s'
        \<and> (2401 \<le> Suc k \<longrightarrow>
              (0 < n \<longrightarrow> 0 < V_sim s')
              \<and> V_sim r \<le> max (V_sim s' - real n * (17 / 9600)) 0))"
    if "in_eclipse t0 (Suc k) s'"
    unfolding r_def using that Suc.prems(2) by (intro Suc.IH) simp_all
  from first have "crashed r
    \<or> (in_eclipse t0 (k + Suc n) r \<and> V_sim r \<le> V_sim s
        \<and> (2401 \<le> k \<longrightarrow>
              (0 < Suc n \<longrightarrow> 0 < V_sim s)
              \<and> V_sim r \<le> max (V_sim s - real (Suc n) * (17 / 9600)) 0))"
  proof (elim disjE conjE)
    assume "crashed s'"
    then have "crashed r"
      unfolding r_def by (rule crashed_run)
    then show ?thesis ..
  next
    assume inv': "in_eclipse t0 (Suc k) s'" and le': "V_sim s' \<le> V_sim s"
      and drain': "2401 \<le> k \<longrightarrow> 0 < V_sim s \<and> V_sim s' \<le> max (V_sim s - 17 / 9600) 0"
    from rest [OF inv'] show ?thesis
    proof (elim disjE conjE)
      assume "crashed r"
      then show ?thesis ..
    next
      assume inv'': "in_eclipse t0 (Suc k + n) r" and le'': "V_sim r \<le> V_sim s'"
        and drain'': "2401 \<le> Suc k \<longrightarrow>
              (0 < n \<longrightarrow> 0 < V_sim s')
              \<and> V_sim r \<le> max (V_sim s' - real n * (17 / 9600)) 0"
      have a: "in_eclipse t0 (k + Suc n) r"
        using inv'' by simp
      have b: "V_sim r \<le> V_sim s"
        using le' le'' by linarith
      have c: "2401 \<le> k \<longrightarrow>
              (0 < Suc n \<longrightarrow> 0 < V_sim s)
              \<and> V_sim r \<le> max (V_sim s - real (Suc n) * (17 / 9600)) 0"
      proof
        assume "2401 \<le> k"
        with drain' drain'' have p: "0 < V_sim s"
          and d1: "V_sim s' \<le> max (V_sim s - 17 / 9600) 0"
          and d2: "V_sim r \<le> max (V_sim s' - real n * (17 / 9600)) 0"
          by simp_all
        have "0 \<le> real n * (17 / 9600)"
          by simp
        with d1 d2 have "V_sim r \<le> max (V_sim s - (real n * (17 / 9600) + 17 / 9600)) 0"
          by (simp add: max_def split: if_splits)
        moreover have "real (Suc n) * (17 / 9600) = real n * (17 / 9600) + 17 / 9600"
          by (simp add: algebra_simps)
        ultimately have "V_sim r \<le> max (V_sim s - real (Suc n) * (17 / 9600)) 0"
          by (simp only:)
        with p show "(0 < Suc n \<longrightarrow> 0 < V_sim s)
              \<and> V_sim r \<le> max (V_sim s - real (Suc n) * (17 / 9600)) 0"
          by simp
      qed
      from a b c show ?thesis
        by (intro disjI2 conjI)
    qed
  qed
  then show ?case
    unfolding run_eq .
qed

lemma in_eclipse_between: "in_eclipse t0 k s \<Longrightarrow> between_eclipses s"
  by (simp add: in_eclipse_def between_eclipses_def)

lemma enter_eclipse:
  assumes "between_eclipses s"
  shows "in_eclipse (sim_time s) 0 (run s [Put_Eclipse (PInt 0), Put_Eclipse (PInt 1)])"
    and "V_sim (run s [Put_Eclipse (PInt 0), Put_Eclipse (PInt 1)]) = V_sim s"
proof -
  define s1 where "s1 = Eclipse_write s (PInt 0)"
  have s1: "s1 = (if Eclipse s = 1 then s\<lparr>Solar_power := init_solar_power s, Eclipse := 0\<rparr>
                  else s\<lparr>Eclipse := 0\<rparr>)"
    by (simp add: s1_def Eclipse_write_PInt_0)
  have e1: "Eclipse s1 = 0"
    by (simp add: s1)
  have s2: "Eclipse_write s1 (PInt 1) = s1\<lparr>eclipse_begin := Some (sim_time s1), Eclipse := 1\<rparr>"
    using e1 by (simp add: Eclipse_write_PInt_1)
  have r: "run s [Put_Eclipse (PInt 0), Put_Eclipse (PInt 1)]
             = s1\<lparr>eclipse_begin := Some (sim_time s1), Eclipse := 1\<rparr>"
    by (simp add: s2 s1_def [symmetric])
  show "in_eclipse (sim_time s) 0 (run s [Put_Eclipse (PInt 0), Put_Eclipse (PInt 1)])"
    unfolding r using assms by (simp add: s1 in_eclipse_def between_eclipses_def)
  show "V_sim (run s [Put_Eclipse (PInt 0), Put_Eclipse (PInt 1)]) = V_sim s"
    unfolding r by (simp add: s1)
qed

lemma eclipse_block_split:
  "eclipse_block = [Put_Eclipse (PInt 0), Put_Eclipse (PInt 1)]
                     @ replicate 2401 Tick @ replicate 1200 Tick"
proof -
  have "(3601::nat) = 2401 + 1200"
    by simp
  then have "replicate 3601 Tick = replicate 2401 Tick @ replicate 1200 Tick"
    by (simp only: replicate_add)
  then show ?thesis
    by (simp only: eclipse_block_def append.simps)
qed

lemma run_eclipse_block:
  assumes "between_eclipses s"
  shows "crashed (run s eclipse_block)
    \<or> (between_eclipses (run s eclipse_block) \<and> 0 < V_sim s
        \<and> V_sim (run s eclipse_block) \<le> max (V_sim s - 17 / 8) 0)"
proof -
  define s2 where "s2 = run s [Put_Eclipse (PInt 0), Put_Eclipse (PInt 1)]"
  define s3 where "s3 = run s2 (replicate 2401 Tick)"
  define s4 where "s4 = run s3 (replicate 1200 Tick)"
  have r: "run s eclipse_block = s4"
    by (simp only: eclipse_block_split run_append s2_def s3_def s4_def)
  have inv2: "in_eclipse (sim_time s) 0 s2" and v2: "V_sim s2 = V_sim s"
    unfolding s2_def using assms by (rule enter_eclipse)+
  have phase1: "crashed s3 \<or> (in_eclipse (sim_time s) 2401 s3 \<and> V_sim s3 \<le> V_sim s2)"
    using run_ticks_in_eclipse [OF inv2, of 2401] by (auto simp add: s3_def)
  have phase2: "crashed s4
    \<or> (in_eclipse (sim_time s) 3601 s4 \<and> 0 < V_sim s3
        \<and> V_sim s4 \<le> max (V_sim s3 - 17 / 8) 0)"
    if "in_eclipse (sim_time s) 2401 s3"
    using run_ticks_in_eclipse [OF that, of 1200] by (auto simp add: s4_def)
  from phase1 have "crashed s4
    \<or> (between_eclipses s4 \<and> 0 < V_sim s \<and> V_sim s4 \<le> max (V_sim s - 17 / 8) 0)"
  proof (elim disjE conjE)
    assume "crashed s3"
    then have "crashed s4"
      unfolding s4_def by (rule crashed_run)
    then show ?thesis ..
  next
    assume inv3: "in_eclipse (sim_time s) 2401 s3" and le3: "V_sim s3 \<le> V_sim s2"
    from phase2 [OF inv3] show ?thesis
    proof (elim disjE conjE)
      assume "crashed s4"
      then show ?thesis ..
    next
      assume inv4: "in_eclipse (sim_time s) 3601 s4" and pos: "0 < V_sim s3"
        and d: "V_sim s4 \<le> max (V_sim s3 - 17 / 8) 0"
      have "between_eclipses s4"
        using inv4 by (rule in_eclipse_between)
      moreover have "0 < V_sim s"
        using pos le3 v2 by linarith
      moreover have "V_sim s4 \<le> max (V_sim s - 17 / 8) 0"
        using d le3 v2 by (simp add: max_def split: if_splits)
      ultimately show ?thesis
        by (intro disjI2 conjI)
    qed
  qed
  then show ?thesis
    unfolding r .
qed

lemma run_eclipse_blocks:
  assumes "between_eclipses s"
  shows "crashed (run s (concat (replicate m eclipse_block)))
    \<or> (between_eclipses (run s (concat (replicate m eclipse_block)))
        \<and> V_sim (run s (concat (replicate m eclipse_block)))
             \<le> max (V_sim s - real m * (17 / 8)) 0)"
  using assms
proof (induction m arbitrary: s)
  case 0
  then have "0 \<le> V_sim s"
    by (simp add: between_eclipses_def)
  with 0 show ?case
    by simp
next
  case (Suc m)
  define s' where "s' = run s eclipse_block"
  define r where "r = run s' (concat (replicate m eclipse_block))"
  have run_eq: "run s (concat (replicate (Suc m) eclipse_block)) = r"
    by (simp add: run_append r_def s'_def)
  have first: "crashed s'
    \<or> (between_eclipses s' \<and> 0 < V_sim s \<and> V_sim s' \<le> max (V_sim s - 17 / 8) 0)"
    unfolding s'_def using Suc.prems by (rule run_eclipse_block)
  have rest: "crashed r
    \<or> (between_eclipses r \<and> V_sim r \<le> max (V_sim s' - real m * (17 / 8)) 0)"
    if "between_eclipses s'"
    unfolding r_def using that by (rule Suc.IH)
  from first have "crashed r
    \<or> (between_eclipses r \<and> V_sim r \<le> max (V_sim s - real (Suc m) * (17 / 8)) 0)"
  proof (elim disjE conjE)
    assume "crashed s'"
    then have "crashed r"
      unfolding r_def by (rule crashed_run)
    then show ?thesis ..
  next
    assume inv': "between_eclipses s'" and d1: "V_sim s' \<le> max (V_sim s - 17 / 8) 0"
    from rest [OF inv'] show ?thesis
    proof (elim disjE conjE)
      assume "crashed r"
      then show ?thesis ..
    next
      assume inv'': "between_eclipses r"
        and d2: "V_sim r \<le> max (V_sim s' - real m * (17 / 8)) 0"
      have "0 \<le> real m * (17 / 8)"
        by simp
      with d1 d2 have "V_sim r \<le> max (V_sim s - (real m * (17 / 8) + 17 / 8)) 0"
        by (simp add: max_def split: if_splits)
      moreover have "real (Suc m) * (17 / 8) = real m * (17 / 8) + 17 / 8"
        by (simp add: algebra_simps)
      ultimately have "V_sim r \<le> max (V_sim s - real (Suc m) * (17 / 8)) 0"
        by (simp only:)
      with inv'' show ?thesis
        by (intro disjI2 conjI)
    qed
  qed
  then show ?case
    unfolding run_eq .
qed

lemma source_defaults_crash:
  "crashed (run (init source_defaults)
     (Put_V_target 0 # concat (replicate 17 eclipse_block)))"
proof -
  define s0 where "s0 = step (init source_defaults) (Put_V_target 0)"
  define s16 where "s16 = run s0 (concat (replicate 16 eclipse_block))"
  have s0: "s0 = (init source_defaults)\<lparr>V_target := 0\<rparr>"
    using max_voltage_pos by (simp add: s0_def V_target_write_eq)
  have b0: "between_eclipses s0" and v0: "V_sim s0 = 32"
    by (simp_all add: s0 between_eclipses_def init_source_defaults)
  have "(17::nat) = 16 + 1"
    by simp
  then have "replicate 17 eclipse_block = replicate 16 eclipse_block @ [eclipse_block]"
    by (simp only: replicate_add) simp
  then have r: "run (init source_defaults)
       (Put_V_target 0 # concat (replicate 17 eclipse_block)) = run s16 eclipse_block"
    by (simp add: run_append s0_def s16_def)
  from run_eclipse_blocks [OF b0, of 16]
  have "crashed s16 \<or> (between_eclipses s16 \<and> V_sim s16 \<le> 0)"
    by (simp add: s16_def v0)
  then have "crashed (run s16 eclipse_block)"
  proof (elim disjE conjE)
    assume "crashed s16"
    then show ?thesis
      by (rule crashed_run)
  next
    assume b16: "between_eclipses s16" and z: "V_sim s16 \<le> 0"
    from run_eclipse_block [OF b16] z show ?thesis
      by auto
  qed
  then show ?thesis
    unfolding r .
qed

text \<open>
  C8. The loop does not keep the simulated voltage positive before it discharges: it
  floors the voltage at exactly \<open>0\<close> and divides by it in the next discharging
  iteration. The program as written, with its own defaults, reaches that state: after
  the target voltage is set to \<open>0\<close> and seventeen eclipses are started (each followed by
  3601 iterations), the loop has ended with \<^verbatim>\<open>ZeroDivisionError\<close>. A short run shows
  the mechanism: with defaults of 0.001 V and no solar power, both accepted by the
  startup validation, the first iteration writes \<open>0\<close> V and the second raises.
\<close>

theorem zero_voltage_discharge_ends_loop:
  "main source_defaults = Serving (init source_defaults)
   \<and> loop_exc (run (init source_defaults)
        (Put_V_target 0
         # concat (replicate 17
             (Put_Eclipse (PInt 0) # Put_Eclipse (PInt 1) # replicate 3601 Tick))))
       = Some ZeroDivisionError
   \<and> main (source_defaults\<lparr>d_V_sim := 1 / 1000, d_Solar_power := 0\<rparr>)
       = Serving (init (source_defaults\<lparr>d_V_sim := 1 / 1000, d_Solar_power := 0\<rparr>))
   \<and> step (init (source_defaults\<lparr>d_V_sim := 1 / 1000, d_Solar_power := 0\<rparr>)) Tick
       = (init (source_defaults\<lparr>d_V_sim := 1 / 1000, d_Solar_power := 0\<rparr>))
           \<lparr>sim_time := 1, V_sim := 0, I_sim := - 100000\<rparr>
   \<and> tick ((init (source_defaults\<lparr>d_V_sim := 1 / 1000, d_Solar_power := 0\<rparr>))
              \<lparr>sim_time := 1, V_sim := 0, I_sim := - 100000\<rparr>)
       = Inl (ZeroDivisionError,
              (init (source_defaults\<lparr>d_V_sim := 1 / 1000, d_Solar_power := 0\<rparr>))
                \<lparr>sim_time := 1, V_sim := 0, I_sim := - 100000\<rparr>)
   \<and> loop_exc (run (init (source_defaults\<lparr>d_V_sim := 1 / 1000, d_Solar_power := 0\<rparr>))
                  [Tick, Tick]) = Some ZeroDivisionError"
proof -
  have "loop_exc (run (init source_defaults)
        (Put_V_target 0
         # concat (replicate 17
             (Put_Eclipse (PInt 0) # Put_Eclipse (PInt 1) # replicate 3601 Tick))))
       = Some ZeroDivisionError"
    using source_defaults_crash unfolding crashed_def eclipse_block_def .
  with main_source_defaults low_defaults_two_ticks show ?thesis
    by (simp only: simp_thms)
qed

end
